theory Spec2Isabelle
  imports Main
begin

section \<open>Data model\<close>

text \<open>
  The movie repository (\<^verbatim>\<open>MovieQueryBuilder\<close>) and the movie mutation resolvers
  (\<^verbatim>\<open>MovieCreate\<close>, \<^verbatim>\<open>MovieUpdate\<close>, \<^verbatim>\<open>MoviesDestroy\<close>).

  A Go pointer is an \<open>option\<close> (\<open>None\<close> is nil). A Go byte slice is a
  \<open>bytes option\<close>: \<open>None\<close> is the nil slice, \<open>Some []\<close> the empty slice that is
  not nil; the source tests both \<^verbatim>\<open>len(x) == 0\<close> and \<^verbatim>\<open>x == nil\<close>.
\<close>

type_synonym bytes = "nat list"

definition len :: "bytes option \<Rightarrow> nat" where
  "len b = (case b of None \<Rightarrow> 0 | Some xs \<Rightarrow> length xs)"

text \<open>\<^verbatim>\<open>sql.NullString\<close>, \<^verbatim>\<open>sql.NullInt64\<close>, \<^verbatim>\<open>SQLiteDate\<close>: a value and its
  \<^verbatim>\<open>Valid\<close> flag; \<^verbatim>\<open>Valid = false\<close> is SQL NULL.\<close>

record 'a sqlnull =
  Value :: 'a
  Valid :: bool

type_synonym NullString = "string sqlnull"
type_synonym NullInt64 = "int sqlnull"
type_synonym SQLiteDate = "string sqlnull"
type_synonym SQLiteTimestamp = nat

definition null_string :: NullString where
  "null_string = \<lparr>Value = [], Valid = False\<rparr>"

definition null_int64 :: NullInt64 where
  "null_int64 = \<lparr>Value = 0, Valid = False\<rparr>"

text \<open>The columns of table \<^verbatim>\<open>movies\<close>, in the order of the INSERT statement of
  \<^verbatim>\<open>Create\<close>.\<close>

record Movie =
  ID :: int
  Checksum :: string
  Name :: NullString
  Aliases :: NullString
  Duration :: NullInt64
  Date :: SQLiteDate
  Rating :: NullInt64
  StudioID :: NullInt64
  Director :: NullString
  Synopsis :: NullString
  URL :: NullString
  CreatedAt :: SQLiteTimestamp
  UpdatedAt :: SQLiteTimestamp

text \<open>\<^verbatim>\<open>MoviePartial\<close>: the same columns, every one but the id a pointer.\<close>

record MoviePartial =
  pID :: int
  pChecksum :: "string option"
  pName :: "NullString option"
  pAliases :: "NullString option"
  pDuration :: "NullInt64 option"
  pDate :: "SQLiteDate option"
  pRating :: "NullInt64 option"
  pStudioID :: "NullInt64 option"
  pDirector :: "NullString option"
  pSynopsis :: "NullString option"
  pURL :: "NullString option"
  pCreatedAt :: "SQLiteTimestamp option"
  pUpdatedAt :: "SQLiteTimestamp option"

record MovieCreateInput =
  cName :: string
  cAliases :: "string option"
  cDuration :: "int option"
  cDate :: "string option"
  cRating :: "int option"
  cStudioID :: "string option"
  cDirector :: "string option"
  cSynopsis :: "string option"
  cURL :: "string option"
  cFrontImage :: "string option"
  cBackImage :: "string option"

record MovieUpdateInput =
  uID :: string
  uName :: "string option"
  uAliases :: "string option"
  uDuration :: "int option"
  uDate :: "string option"
  uRating :: "int option"
  uStudioID :: "string option"
  uDirector :: "string option"
  uSynopsis :: "string option"
  uURL :: "string option"
  uFrontImage :: "string option"
  uBackImage :: "string option"

record FindFilterType =
  Q :: "string option"
  Page :: "int option"
  PerPage :: "int option"
  Sort :: "string option"
  Direction :: "string option"

section \<open>Errors\<close>

datatype error =
    StorageError string  \<comment> \<open>an error returned by the storage engine\<close>
  | ImageError string  \<comment> \<open>an error returned by \<^verbatim>\<open>utils.ProcessBase64Image\<close>\<close>
  | ErrNoRows  \<comment> \<open>\<^verbatim>\<open>sql.ErrNoRows\<close>, from \<^verbatim>\<open>tx.Get\<close>\<close>
  | MovieNotFound int  \<comment> \<open>\<^verbatim>\<open>fmt.Errorf("movie with id %d not found", id)\<close>\<close>
  | NilDereference  \<comment> \<open>the panic of reading a field through a nil pointer\<close>

section \<open>Storage engine\<close>

text \<open>
  The tables the repository reads and writes. A table is the list of its rows in
  insertion order. A row of \<^verbatim>\<open>movies_scenes\<close> is (movie id, scene id).
\<close>

record images_row =
  movie_id :: int
  front_image :: "bytes option"
  back_image :: "bytes option"

record db =
  movies :: "Movie list"
  movies_scenes :: "(int \<times> int) list"
  movies_images :: "images_row list"

text \<open>The SQL statements of the repository, with their bound arguments. The SET-list
  of the UPDATE is the list of its column keys, each standing for \<^verbatim>\<open>key=:key\<close>.\<close>

datatype stmt =
    InsertMovie Movie
  | SelectMovie int
  | UpdateMovies "string list" MoviePartial
  | DeleteMoviesScenes string
  | DeleteByID string string
  | DeleteMoviesImages int
  | InsertMoviesImages int "bytes option" "bytes option"
  | SelectFrontImage int
  | SelectBackImage int
  | Commit

text \<open>
  What the code takes from outside the repository: the checksum and image utilities,
  the default image, the integer parsers (the value they return; the callers drop the
  error), the clock, and the storage engine. \<open>engine_error\<close> says whether the engine
  refuses a statement in a state (constraint violation, I/O failure), and with what
  message; \<open>text_is_key\<close> says whether a bound text argument equals an integer key
  under the engine's comparison.
\<close>

record env =
  MD5FromString :: "string \<Rightarrow> string"
  ProcessBase64Image :: "string \<Rightarrow> error + bytes option"
  DefaultMovieImage :: string
  Atoi :: "string \<Rightarrow> int"
  ParseInt :: "string \<Rightarrow> int"
  time_Now :: SQLiteTimestamp
  engine_error :: "stmt \<Rightarrow> db \<Rightarrow> string option"
  text_is_key :: "string \<Rightarrow> int \<Rightarrow> bool"

definition fresh_id :: "Movie list \<Rightarrow> int" where
  \<comment> \<open>the key the engine assigns to an inserted row: above every key in the table\<close>
  "fresh_id ms = foldr max (map ID ms) 0 + 1"

definition set_column :: "MoviePartial \<Rightarrow> string \<Rightarrow> Movie \<Rightarrow> Movie" where
  \<comment> \<open>\<^verbatim>\<open>key=:key\<close>: the column takes the value bound under its name; a nil pointer
     binds NULL. The columns that cannot hold NULL keep their value then (the generated
     SET-list never names a column whose pointer is nil).\<close>
  "set_column p k m =
     (if k = ''checksum'' then (case pChecksum p of None \<Rightarrow> m | Some v \<Rightarrow> m\<lparr>Checksum := v\<rparr>)
      else if k = ''name'' then m\<lparr>Name := (case pName p of None \<Rightarrow> null_string | Some v \<Rightarrow> v)\<rparr>
      else if k = ''aliases'' then m\<lparr>Aliases := (case pAliases p of None \<Rightarrow> null_string | Some v \<Rightarrow> v)\<rparr>
      else if k = ''duration'' then m\<lparr>Duration := (case pDuration p of None \<Rightarrow> null_int64 | Some v \<Rightarrow> v)\<rparr>
      else if k = ''date'' then m\<lparr>Date := (case pDate p of None \<Rightarrow> null_string | Some v \<Rightarrow> v)\<rparr>
      else if k = ''rating'' then m\<lparr>Rating := (case pRating p of None \<Rightarrow> null_int64 | Some v \<Rightarrow> v)\<rparr>
      else if k = ''studio_id'' then m\<lparr>StudioID := (case pStudioID p of None \<Rightarrow> null_int64 | Some v \<Rightarrow> v)\<rparr>
      else if k = ''director'' then m\<lparr>Director := (case pDirector p of None \<Rightarrow> null_string | Some v \<Rightarrow> v)\<rparr>
      else if k = ''synopsis'' then m\<lparr>Synopsis := (case pSynopsis p of None \<Rightarrow> null_string | Some v \<Rightarrow> v)\<rparr>
      else if k = ''url'' then m\<lparr>URL := (case pURL p of None \<Rightarrow> null_string | Some v \<Rightarrow> v)\<rparr>
      else if k = ''created_at'' then (case pCreatedAt p of None \<Rightarrow> m | Some v \<Rightarrow> m\<lparr>CreatedAt := v\<rparr>)
      else if k = ''updated_at'' then (case pUpdatedAt p of None \<Rightarrow> m | Some v \<Rightarrow> m\<lparr>UpdatedAt := v\<rparr>)
      else m)"

definition update_row :: "string list \<Rightarrow> MoviePartial \<Rightarrow> Movie \<Rightarrow> Movie" where
  "update_row keys p m = fold (set_column p) keys m"

fun apply_stmt :: "env \<Rightarrow> stmt \<Rightarrow> db \<Rightarrow> db" where
  "apply_stmt env (InsertMovie m) d =
     d\<lparr>movies := movies d @ [m\<lparr>ID := fresh_id (movies d)\<rparr>]\<rparr>"
| "apply_stmt env (UpdateMovies keys p) d =
     d\<lparr>movies := map (\<lambda>m. if ID m = pID p then update_row keys p m else m) (movies d)\<rparr>"
| "apply_stmt env (DeleteMoviesScenes t) d =
     d\<lparr>movies_scenes := filter (\<lambda>r. \<not> text_is_key env t (fst r)) (movies_scenes d)\<rparr>"
| "apply_stmt env (DeleteByID tableName t) d =
     (if tableName = ''movies''
      then d\<lparr>movies := filter (\<lambda>m. \<not> text_is_key env t (ID m)) (movies d)\<rparr>
      else d)"
| "apply_stmt env (DeleteMoviesImages i) d =
     d\<lparr>movies_images := filter (\<lambda>r. movie_id r \<noteq> i) (movies_images d)\<rparr>"
| "apply_stmt env (InsertMoviesImages i f b) d =
     d\<lparr>movies_images := movies_images d @ [\<lparr>movie_id = i, front_image = f, back_image = b\<rparr>]\<rparr>"
| "apply_stmt env (SelectMovie i) d = d"
| "apply_stmt env (SelectFrontImage i) d = d"
| "apply_stmt env (SelectBackImage i) d = d"
| "apply_stmt env Commit d = d"

definition exec :: "env \<Rightarrow> stmt \<Rightarrow> db \<Rightarrow> db \<times> error option" where
  \<comment> \<open>\<^verbatim>\<open>tx.Exec\<close>, \<^verbatim>\<open>tx.NamedExec\<close>: a refused statement changes nothing\<close>
  "exec env s d =
     (case engine_error env s d of
        Some msg \<Rightarrow> (d, Some (StorageError msg))
      | None \<Rightarrow> (apply_stmt env s d, None))"

fun movie_rows :: "stmt \<Rightarrow> db \<Rightarrow> Movie list" where
  "movie_rows (SelectMovie i) d = take 1 (filter (\<lambda>m. ID m = i) (movies d))"
| "movie_rows s d = []"

fun image_rows :: "stmt \<Rightarrow> db \<Rightarrow> bytes option list" where
  "image_rows (SelectFrontImage i) d =
     map front_image (filter (\<lambda>r. movie_id r = i) (movies_images d))"
| "image_rows (SelectBackImage i) d =
     map back_image (filter (\<lambda>r. movie_id r = i) (movies_images d))"
| "image_rows s d = []"

definition tx_Get :: "env \<Rightarrow> stmt \<Rightarrow> db \<Rightarrow> error + Movie" where
  \<comment> \<open>\<^verbatim>\<open>tx.Get\<close>: the first row, \<^verbatim>\<open>sql.ErrNoRows\<close> when there is none\<close>
  "tx_Get env q d =
     (case engine_error env q d of
        Some msg \<Rightarrow> Inl (StorageError msg)
      | None \<Rightarrow> (case movie_rows q d of [] \<Rightarrow> Inl ErrNoRows | r # rs \<Rightarrow> Inr r))"

definition tx_Commit :: "env \<Rightarrow> db \<Rightarrow> error option" where
  "tx_Commit env tx =
     (case engine_error env Commit tx of
        Some msg \<Rightarrow> Some (StorageError msg)
      | None \<Rightarrow> None)"

section \<open>The movie repository\<close>

text \<open>
  A repository operation takes the tables it works on: the working copy of the
  transaction it is given, or the committed tables (\<^verbatim>\<open>database.DB\<close>) where the source
  passes a nil transaction. A writing operation returns the tables after it, also when
  it fails part way. \<^verbatim>\<open>MustBeginTx\<close> starts the working copy from the committed tables,
  \<^verbatim>\<open>Commit\<close> installs it and \<^verbatim>\<open>Rollback\<close> drops it.
\<close>

definition SQLGenKeysPartial :: "MoviePartial \<Rightarrow> string list" where
  \<comment> \<open>Modelled from the spec: \<^verbatim>\<open>SQLGenKeysPartial\<close> is not among the sources; the
     SET-list holds the key of every field of the patch that is present (its pointer is
     not nil), in the order of the columns, and never the id.\<close>
  "SQLGenKeysPartial p =
     (if pChecksum p \<noteq> None then [''checksum''] else [])
     @ (if pName p \<noteq> None then [''name''] else [])
     @ (if pAliases p \<noteq> None then [''aliases''] else [])
     @ (if pDuration p \<noteq> None then [''duration''] else [])
     @ (if pDate p \<noteq> None then [''date''] else [])
     @ (if pRating p \<noteq> None then [''rating''] else [])
     @ (if pStudioID p \<noteq> None then [''studio_id''] else [])
     @ (if pDirector p \<noteq> None then [''director''] else [])
     @ (if pSynopsis p \<noteq> None then [''synopsis''] else [])
     @ (if pURL p \<noteq> None then [''url''] else [])
     @ (if pCreatedAt p \<noteq> None then [''created_at''] else [])
     @ (if pUpdatedAt p \<noteq> None then [''updated_at''] else [])"

definition queryMovies :: "env \<Rightarrow> stmt \<Rightarrow> db \<Rightarrow> error + Movie list" where
  "queryMovies env query d =
     (case engine_error env query d of
        Some msg \<Rightarrow> Inl (StorageError msg)
      | None \<Rightarrow> Inr (movie_rows query d))"

definition queryMovie :: "env \<Rightarrow> stmt \<Rightarrow> db \<Rightarrow> error + Movie option" where
  "queryMovie env query d =
     (case queryMovies env query d of
        Inl err \<Rightarrow> Inl err
      | Inr results \<Rightarrow> (case results of [] \<Rightarrow> Inr None | r # rs \<Rightarrow> Inr (Some r)))"

definition Find :: "env \<Rightarrow> int \<Rightarrow> db \<Rightarrow> error + Movie option" where
  "Find env i d = queryMovie env (SelectMovie i) d"

definition Create :: "env \<Rightarrow> Movie \<Rightarrow> db \<Rightarrow> db \<times> (error + Movie)" where
  "Create env newMovie tx =
     (case exec env (InsertMovie newMovie) tx of
        (tx', Some err) \<Rightarrow> (tx', Inl err)
      | (tx', None) \<Rightarrow>
          (let movieID = fresh_id (movies tx)
           in (tx', tx_Get env (SelectMovie movieID) tx')))"

definition Update :: "env \<Rightarrow> MoviePartial \<Rightarrow> db \<Rightarrow> db \<times> (error + Movie option)" where
  "Update env updatedMovie tx =
     (case exec env (UpdateMovies (SQLGenKeysPartial updatedMovie) updatedMovie) tx of
        (tx', Some err) \<Rightarrow> (tx', Inl err)
      | (tx', None) \<Rightarrow> (tx', Find env (pID updatedMovie) tx'))"

definition executeDeleteQuery :: "env \<Rightarrow> string \<Rightarrow> string \<Rightarrow> db \<Rightarrow> db \<times> error option" where
  \<comment> \<open>Modelled from the spec: \<^verbatim>\<open>executeDeleteQuery\<close> is not among the sources; it
     executes a parameterized delete by id on the table.\<close>
  "executeDeleteQuery env tableName i tx = exec env (DeleteByID tableName i) tx"

definition Destroy :: "env \<Rightarrow> string \<Rightarrow> db \<Rightarrow> db \<times> error option" where
  "Destroy env i tx =
     (case exec env (DeleteMoviesScenes i) tx of
        (tx', Some err) \<Rightarrow> (tx', Some err)
      | (tx', None) \<Rightarrow> executeDeleteQuery env ''movies'' i tx')"

fun FindMany_loop :: "env \<Rightarrow> int list \<Rightarrow> Movie list \<Rightarrow> db \<Rightarrow> error + Movie list" where
  "FindMany_loop env [] acc d = Inr acc"
| "FindMany_loop env (i # ids) acc d =
     (case Find env i d of
        Inl err \<Rightarrow> Inl err
      | Inr None \<Rightarrow> Inl (MovieNotFound i)
      | Inr (Some movie) \<Rightarrow> FindMany_loop env ids (acc @ [movie]) d)"

definition FindMany :: "env \<Rightarrow> int list \<Rightarrow> db \<Rightarrow> error + Movie list" where
  "FindMany env ids d = FindMany_loop env ids [] d"

text \<open>\<^verbatim>\<open>Query\<close>, from the result of \<^verbatim>\<open>executeFindQuery\<close> on: the ids and the count the
  assembled id and count queries gave. (\<^verbatim>\<open>executeFindQuery\<close> and the clause helpers
  that build its arguments are not among the sources.)\<close>

definition Query :: "env \<Rightarrow> int list \<times> int \<Rightarrow> db \<Rightarrow> Movie option list \<times> int" where
  "Query env found d =
     (let (idsResult, countResult) = found
      in (map (\<lambda>i. case Find env i d of Inl err \<Rightarrow> None | Inr movie \<Rightarrow> movie) idsResult,
          countResult))"

definition DestroyMovieImages :: "env \<Rightarrow> int \<Rightarrow> db \<Rightarrow> db \<times> error option" where
  "DestroyMovieImages env movieID tx = exec env (DeleteMoviesImages movieID) tx"

definition UpdateMovieImages ::
  "env \<Rightarrow> int \<Rightarrow> bytes option \<Rightarrow> bytes option \<Rightarrow> db \<Rightarrow> db \<times> error option" where
  "UpdateMovieImages env movieID frontImage backImage tx =
     (case DestroyMovieImages env movieID tx of
        (tx', Some err) \<Rightarrow> (tx', Some err)
      | (tx', None) \<Rightarrow> exec env (InsertMoviesImages movieID frontImage backImage) tx')"

definition first_image :: "stmt \<Rightarrow> db \<Rightarrow> bytes option" where
  \<comment> \<open>the image of the first row a sidecar query selects, nil when it selects none\<close>
  "first_image query d = (case image_rows query d of [] \<Rightarrow> None | b # bs \<Rightarrow> b)"

definition getImage :: "env \<Rightarrow> stmt \<Rightarrow> db \<Rightarrow> error + bytes option" where
  \<comment> \<open>Modelled from the spec: \<^verbatim>\<open>getImage\<close> is not among the sources; a point read
     that returns empty, not an error, when no sidecar row exists.\<close>
  "getImage env query d =
     (case engine_error env query d of
        Some msg \<Rightarrow> Inl (StorageError msg)
      | None \<Rightarrow> Inr (first_image query d))"

definition GetFrontImage :: "env \<Rightarrow> int \<Rightarrow> db \<Rightarrow> error + bytes option" where
  "GetFrontImage env movieID tx = getImage env (SelectFrontImage movieID) tx"

definition GetBackImage :: "env \<Rightarrow> int \<Rightarrow> db \<Rightarrow> error + bytes option" where
  "GetBackImage env movieID tx = getImage env (SelectBackImage movieID) tx"

section \<open>The mutation resolvers\<close>

text \<open>
  The presence set of an update: \<^verbatim>\<open>getUpdateInputMap(ctx)\<close>, the names of the fields
  the request carries, and the translator built on it.
\<close>

record changesetTranslator =
  inputMap :: "string set"

definition hasField :: "changesetTranslator \<Rightarrow> string \<Rightarrow> bool" where
  \<comment> \<open>Modelled from the spec: \<^verbatim>\<open>changesetTranslator\<close> is not among the sources; a
     field is present when its name is in the presence set.\<close>
  "hasField t field = (field \<in> inputMap t)"

definition nullString ::
  "changesetTranslator \<Rightarrow> string option \<Rightarrow> string \<Rightarrow> NullString option" where
  \<comment> \<open>Modelled from the spec: a field is written only if its name is in the presence
     set; a field present with an explicit null value is written as NULL.\<close>
  "nullString t v field =
     (if \<not> hasField t field then None
      else Some (case v of None \<Rightarrow> null_string | Some s \<Rightarrow> \<lparr>Value = s, Valid = True\<rparr>))"

definition nullInt64 ::
  "changesetTranslator \<Rightarrow> int option \<Rightarrow> string \<Rightarrow> NullInt64 option" where
  \<comment> \<open>Modelled from the spec: as \<open>nullString\<close>, for an integer.\<close>
  "nullInt64 t v field =
     (if \<not> hasField t field then None
      else Some (case v of None \<Rightarrow> null_int64 | Some n \<Rightarrow> \<lparr>Value = n, Valid = True\<rparr>))"

definition sqliteDate ::
  "changesetTranslator \<Rightarrow> string option \<Rightarrow> string \<Rightarrow> SQLiteDate option" where
  \<comment> \<open>Modelled from the spec: as \<open>nullString\<close>, for a date.\<close>
  "sqliteDate t v field =
     (if \<not> hasField t field then None
      else Some (case v of None \<Rightarrow> null_string | Some s \<Rightarrow> \<lparr>Value = s, Valid = True\<rparr>))"

definition nullInt64FromString ::
  "env \<Rightarrow> changesetTranslator \<Rightarrow> string option \<Rightarrow> string \<Rightarrow> NullInt64 option" where
  \<comment> \<open>Modelled from the spec: as \<open>nullInt64\<close>, for an integer given as text.\<close>
  "nullInt64FromString env t v field =
     (if \<not> hasField t field then None
      else Some (case v of None \<Rightarrow> null_int64
                 | Some s \<Rightarrow> \<lparr>Value = ParseInt env s, Valid = True\<rparr>))"

definition decode_image :: "env \<Rightarrow> string option \<Rightarrow> error + bytes option" where
  \<comment> \<open>\<^verbatim>\<open>if input.X != nil { _, data, err = utils.ProcessBase64Image(*input.X) }\<close>:
     the data stay nil when the input is nil\<close>
  "decode_image env img =
     (case img of None \<Rightarrow> Inr None | Some s \<Rightarrow> ProcessBase64Image env s)"

definition default_image_data :: "env \<Rightarrow> bytes option" where
  \<comment> \<open>\<^verbatim>\<open>_, frontimageData, _ = utils.ProcessBase64Image(models.DefaultMovieImage)\<close>:
     the error is dropped\<close>
  "default_image_data env =
     (case ProcessBase64Image env (DefaultMovieImage env) of Inl err \<Rightarrow> None | Inr b \<Rightarrow> b)"

subsection \<open>MovieCreate\<close>

definition MovieCreate_newMovie :: "env \<Rightarrow> MovieCreateInput \<Rightarrow> string \<Rightarrow> Movie" where
  \<comment> \<open>"Populate a new movie from the input"\<close>
  "MovieCreate_newMovie env input checksum =
     \<lparr>ID = 0,
      Checksum = checksum,
      Name = \<lparr>Value = cName input, Valid = True\<rparr>,
      Aliases = (case cAliases input of None \<Rightarrow> null_string
                 | Some a \<Rightarrow> \<lparr>Value = a, Valid = True\<rparr>),
      Duration = (case cDuration input of None \<Rightarrow> null_int64
                  | Some n \<Rightarrow> \<lparr>Value = n, Valid = True\<rparr>),
      Date = (case cDate input of None \<Rightarrow> null_string
              | Some a \<Rightarrow> \<lparr>Value = a, Valid = True\<rparr>),
      Rating = (case cRating input of None \<Rightarrow> null_int64
                | Some n \<Rightarrow> \<lparr>Value = n, Valid = True\<rparr>),
      StudioID = (case cStudioID input of None \<Rightarrow> null_int64
                  | Some a \<Rightarrow> \<lparr>Value = ParseInt env a, Valid = True\<rparr>),
      Director = (case cDirector input of None \<Rightarrow> null_string
                  | Some a \<Rightarrow> \<lparr>Value = a, Valid = True\<rparr>),
      Synopsis = (case cSynopsis input of None \<Rightarrow> null_string
                  | Some a \<Rightarrow> \<lparr>Value = a, Valid = True\<rparr>),
      URL = (case cURL input of None \<Rightarrow> null_string
             | Some a \<Rightarrow> \<lparr>Value = a, Valid = True\<rparr>),
      CreatedAt = time_Now env,
      UpdatedAt = time_Now env\<rparr>"

definition MovieCreate :: "env \<Rightarrow> MovieCreateInput \<Rightarrow> db \<Rightarrow> db \<times> (error + Movie)" where
  "MovieCreate env input d =
     (let checksum = MD5FromString env (cName input);
          FrontImage = (if cFrontImage input = None \<and> cBackImage input \<noteq> None
                        then Some (DefaultMovieImage env) else cFrontImage input)
      in case decode_image env FrontImage of
           Inl err \<Rightarrow> (d, Inl err)
         | Inr frontimageData \<Rightarrow>
        (case decode_image env (cBackImage input) of
           Inl err \<Rightarrow> (d, Inl err)
         | Inr backimageData \<Rightarrow>
        (case Create env (MovieCreate_newMovie env input checksum) d of
           (tx, Inl err) \<Rightarrow> (d, Inl err)
         | (tx, Inr movie) \<Rightarrow>
        (case (if len frontimageData > 0
               then UpdateMovieImages env (ID movie) frontimageData backimageData tx
               else (tx, None)) of
           (tx', Some err) \<Rightarrow> (d, Inl err)
         | (tx', None) \<Rightarrow>
        (case tx_Commit env tx' of
           Some err \<Rightarrow> (d, Inl err)
         | None \<Rightarrow> (tx', Inr movie))))))"

subsection \<open>MovieUpdate\<close>

definition MovieUpdate_patch ::
  "env \<Rightarrow> changesetTranslator \<Rightarrow> MovieUpdateInput \<Rightarrow> MoviePartial" where
  \<comment> \<open>"Populate movie from the input": the patch handed to \<^verbatim>\<open>Update\<close>\<close>
  "MovieUpdate_patch env translator input =
     \<lparr>pID = Atoi env (uID input),
      pChecksum = (case uName input of None \<Rightarrow> None | Some n \<Rightarrow> Some (MD5FromString env n)),
      pName = (case uName input of None \<Rightarrow> None
               | Some n \<Rightarrow> Some \<lparr>Value = n, Valid = True\<rparr>),
      pAliases = nullString translator (uAliases input) ''aliases'',
      pDuration = nullInt64 translator (uDuration input) ''duration'',
      pDate = sqliteDate translator (uDate input) ''date'',
      pRating = nullInt64 translator (uRating input) ''rating'',
      pStudioID = nullInt64FromString env translator (uStudioID input) ''studio_id'',
      pDirector = nullString translator (uDirector input) ''director'',
      pSynopsis = nullString translator (uSynopsis input) ''synopsis'',
      pURL = nullString translator (uURL input) ''url'',
      pCreatedAt = None,
      pUpdatedAt = Some (time_Now env)\<rparr>"

definition MovieUpdate_images ::
  "env \<Rightarrow> bool \<Rightarrow> bool \<Rightarrow> bytes option \<Rightarrow> bytes option \<Rightarrow> MoviePartial \<Rightarrow> Movie option
     \<Rightarrow> db \<Rightarrow> db \<times> error option" where
  \<comment> \<open>"update image table". \<^verbatim>\<open>movie.ID\<close> on a nil \<^verbatim>\<open>movie\<close> panics, in either
     branch.\<close>
  "MovieUpdate_images env frontImageIncluded backImageIncluded frontimageData backimageData
       updatedMovie movie tx =
     (if frontImageIncluded \<or> backImageIncluded then
        (case (if \<not> frontImageIncluded then GetFrontImage env (pID updatedMovie) tx
               else Inr frontimageData) of
           Inl err \<Rightarrow> (tx, Some err)
         | Inr frontimageData \<Rightarrow>
        (case (if \<not> backImageIncluded then GetBackImage env (pID updatedMovie) tx
               else Inr backimageData) of
           Inl err \<Rightarrow> (tx, Some err)
         | Inr backimageData \<Rightarrow>
        (case movie of
           None \<Rightarrow> (tx, Some NilDereference)
         | Some mv \<Rightarrow>
             if len frontimageData = 0 \<and> len backimageData = 0
             then DestroyMovieImages env (ID mv) tx
             else UpdateMovieImages env (ID mv)
                    (if frontimageData = None \<and> backimageData \<noteq> None
                     then default_image_data env else frontimageData)
                    backimageData tx)))
      else (tx, None))"

definition MovieUpdate ::
  "env \<Rightarrow> string set \<Rightarrow> MovieUpdateInput \<Rightarrow> db \<Rightarrow> db \<times> (error + Movie option)" where
  "MovieUpdate env getUpdateInputMap input d =
     (let translator = \<lparr>inputMap = getUpdateInputMap\<rparr>;
          frontImageIncluded = hasField translator ''front_image'';
          backImageIncluded = hasField translator ''back_image''
      in case decode_image env (uFrontImage input) of
           Inl err \<Rightarrow> (d, Inl err)
         | Inr frontimageData \<Rightarrow>
        (case decode_image env (uBackImage input) of
           Inl err \<Rightarrow> (d, Inl err)
         | Inr backimageData \<Rightarrow>
        (let updatedMovie = MovieUpdate_patch env translator input
         in case Update env updatedMovie d of
              (tx, Inl err) \<Rightarrow> (d, Inl err)
            | (tx, Inr movie) \<Rightarrow>
           (case MovieUpdate_images env frontImageIncluded backImageIncluded
                   frontimageData backimageData updatedMovie movie tx of
              (tx', Some err) \<Rightarrow> (d, Inl err)
            | (tx', None) \<Rightarrow>
           (case tx_Commit env tx' of
              Some err \<Rightarrow> (d, Inl err)
            | None \<Rightarrow> (tx', Inr movie))))))"

subsection \<open>MoviesDestroy\<close>

fun MoviesDestroy_loop :: "env \<Rightarrow> string list \<Rightarrow> db \<Rightarrow> db \<times> error option" where
  "MoviesDestroy_loop env [] tx = (tx, None)"
| "MoviesDestroy_loop env (i # ids) tx =
     (case Destroy env i tx of
        (tx', Some err) \<Rightarrow> (tx', Some err)
      | (tx', None) \<Rightarrow> MoviesDestroy_loop env ids tx')"

text \<open>A resolver takes the committed tables and returns them as they are after the
  call, with its result.\<close>

definition MoviesDestroy :: "env \<Rightarrow> string list \<Rightarrow> db \<Rightarrow> db \<times> bool \<times> error option" where
  "MoviesDestroy env ids d =
     (case MoviesDestroy_loop env ids d of
        (tx', Some err) \<Rightarrow> (d, False, Some err)
      | (tx', None) \<Rightarrow>
          (case tx_Commit env tx' of
             Some err \<Rightarrow> (d, False, Some err)
           | None \<Rightarrow> (tx', True, None)))"

section \<open>Sort clause\<close>

definition GetSort :: "FindFilterType \<Rightarrow> string \<Rightarrow> string" where
  \<comment> \<open>Modelled from the spec: \<^verbatim>\<open>FindFilterType.GetSort\<close> is not among the sources; the
     sort key of the filter, the default handed in when the filter names none.\<close>
  "GetSort ff defaultSort = (case Sort ff of None \<Rightarrow> defaultSort | Some s \<Rightarrow> s)"

definition GetDirection :: "FindFilterType \<Rightarrow> string" where
  \<comment> \<open>Modelled from the spec: \<^verbatim>\<open>FindFilterType.GetDirection\<close> is not among the
     sources; ascending unless the filter asks for a valid direction.\<close>
  "GetDirection ff =
     (case Direction ff of
        None \<Rightarrow> ''ASC''
      | Some d \<Rightarrow> if d = ''ASC'' \<or> d = ''DESC'' then d else ''ASC'')"

definition getColumn :: "string \<Rightarrow> string \<Rightarrow> string" where
  \<comment> \<open>Modelled from the spec: \<^verbatim>\<open>getColumn\<close> is not among the sources; the column
     qualified by its table, \<^verbatim>\<open><entity>.<field>\<close>.\<close>
  "getColumn tableName columnName = tableName @ ''.'' @ columnName"

text \<open>\<^verbatim>\<open>getMovieSort\<close>. The generic \<^verbatim>\<open>getSort\<close> helper is not among the sources and
  is a parameter.\<close>

definition getMovieSort ::
  "(string \<Rightarrow> string \<Rightarrow> string \<Rightarrow> string) \<Rightarrow> FindFilterType option \<Rightarrow> string" where
  "getMovieSort getSort findFilter =
     (let (sort, direction) =
        (case findFilter of
           None \<Rightarrow> (''name'', ''ASC'')
         | Some ff \<Rightarrow> (GetSort ff ''name'', GetDirection ff))
      in if sort = ''name''
         then '' ORDER BY '' @ getColumn ''movies'' sort @ '' COLLATE NATURAL_CS '' @ direction
         else getSort sort direction ''movies'')"

section \<open>Sample inputs\<close>

text \<open>A concrete environment and concrete tables, on which the properties below are
  evaluated. The sample engine refuses nothing; the sample decoder knows the base64
  texts \<^verbatim>\<open>RA==\<close> (the byte 68, taken as the default image) and \<^verbatim>\<open>Yg==\<close> (the
  byte 98) and refuses every other text; the sample hash puts \<^verbatim>\<open>md5:\<close> before its
  argument; the sample parser reads decimal digits.\<close>

definition sample_Atoi :: "string \<Rightarrow> int" where
  "sample_Atoi s =
     (if s \<noteq> [] \<and> list_all (\<lambda>c. 48 \<le> (of_char c :: nat) \<and> (of_char c :: nat) \<le> 57) s
      then foldl (\<lambda>a c. 10 * a + (int (of_char c) - 48)) 0 s
      else 0)"

definition sample_env :: env where
  "sample_env =
     \<lparr>MD5FromString = (\<lambda>s. ''md5:'' @ s),
      ProcessBase64Image =
        (\<lambda>s. if s = [] then Inl (ImageError ''empty image string'')
             else if s = ''RA=='' then Inr (Some [68])
             else if s = ''Yg=='' then Inr (Some [98])
             else Inl (ImageError ''illegal base64 data'')),
      DefaultMovieImage = ''RA=='',
      Atoi = sample_Atoi,
      ParseInt = sample_Atoi,
      time_Now = 100,
      engine_error = (\<lambda>s t. None),
      text_is_key = (\<lambda>t i. t \<noteq> [] \<and> sample_Atoi t = i)\<rparr>"

definition sample_movie :: "int \<Rightarrow> string \<Rightarrow> Movie" where
  "sample_movie i n =
     \<lparr>ID = i, Checksum = ''md5:'' @ n, Name = \<lparr>Value = n, Valid = True\<rparr>,
      Aliases = null_string, Duration = null_int64, Date = null_string,
      Rating = \<lparr>Value = 5, Valid = True\<rparr>, StudioID = null_int64,
      Director = null_string, Synopsis = null_string, URL = null_string,
      CreatedAt = 1, UpdatedAt = 1\<rparr>"

definition sample_db :: db where
  "sample_db =
     \<lparr>movies = [sample_movie 1 ''A'', sample_movie 2 ''B''],
      movies_scenes = [(1, 10), (2, 10), (2, 11)],
      movies_images = [\<lparr>movie_id = 1, front_image = Some [1, 2], back_image = None\<rparr>]\<rparr>"

definition sample_failing_env :: env where
  \<comment> \<open>the sample environment, with an engine that refuses to delete movie 2\<close>
  "sample_failing_env =
     sample_env\<lparr>engine_error :=
       (\<lambda>s t. if s = DeleteByID ''movies'' ''2'' then Some ''database is locked'' else None)\<rparr>"

definition sample_patch :: MoviePartial where
  \<comment> \<open>a patch for movie 9, which \<open>sample_db\<close> does not hold: it clears the rating\<close>
  "sample_patch =
     \<lparr>pID = 9, pChecksum = None, pName = None, pAliases = None, pDuration = None,
      pDate = None, pRating = Some null_int64, pStudioID = None, pDirector = None,
      pSynopsis = None, pURL = None, pCreatedAt = None, pUpdatedAt = Some 100\<rparr>"

definition sample_create :: MovieCreateInput where
  \<comment> \<open>a new movie with a back image and no front image\<close>
  "sample_create =
     \<lparr>cName = ''C'', cAliases = None, cDuration = None, cDate = None, cRating = None,
      cStudioID = None, cDirector = None, cSynopsis = None, cURL = None,
      cFrontImage = None, cBackImage = Some ''Yg==''\<rparr>"

definition sample_update :: MovieUpdateInput where
  \<comment> \<open>an update payload for movie 2 with every optional field null\<close>
  "sample_update =
     \<lparr>uID = ''2'', uName = None, uAliases = None, uDuration = None, uDate = None,
      uRating = None, uStudioID = None, uDirector = None, uSynopsis = None, uURL = None,
      uFrontImage = None, uBackImage = None\<rparr>"

definition sample_late_failing_env :: env where
  \<comment> \<open>the sample environment, with an engine that refuses to delete movie 2 once it is
     the only movie left\<close>
  "sample_late_failing_env =
     sample_env\<lparr>engine_error :=
       (\<lambda>s t. if s = DeleteByID ''movies'' ''2'' \<and> length (movies t) = 1
              then Some ''database is locked'' else None)\<rparr>"


section \<open>Properties\<close>

text \<open>
  C8. Without a find-filter, and with a find-filter that names no sort key and no
  direction, the sort clause orders by the name column ascending. Whenever the sort key
  is the name, the clause asks for the natural-sort collation, in whatever direction the
  caller gave. Every other sort key is handed to the generic sort helper unchanged.
\<close>

theorem getMovieSort_spec:
  "getMovieSort gs None = '' ORDER BY movies.name COLLATE NATURAL_CS ASC''
   \<and> (Sort ff = None \<and> Direction ff = None \<longrightarrow>
        getMovieSort gs (Some ff) = '' ORDER BY movies.name COLLATE NATURAL_CS ASC'')
   \<and> (GetSort ff ''name'' = ''name'' \<longrightarrow>
        getMovieSort gs (Some ff)
          = '' ORDER BY movies.name COLLATE NATURAL_CS '' @ GetDirection ff)
   \<and> (GetSort ff ''name'' \<noteq> ''name'' \<longrightarrow>
        getMovieSort gs (Some ff) = gs (GetSort ff ''name'') (GetDirection ff) ''movies'')"
  by (simp add: getMovieSort_def GetSort_def GetDirection_def getColumn_def)

text \<open>On the sample inputs: a descending sort by name keeps the natural-sort collation, a
  sort by rating goes to the generic helper, an empty filter sorts by name ascending.\<close>

theorem getMovieSort_spec_witness:
  "getMovieSort (\<lambda>s d t. '' ORDER BY '' @ t @ ''.'' @ s @ '' '' @ d)
      (Some \<lparr>Q = None, Page = None, PerPage = None, Sort = Some ''name'',
             Direction = Some ''DESC''\<rparr>)
     = '' ORDER BY movies.name COLLATE NATURAL_CS DESC''
   \<and> getMovieSort (\<lambda>s d t. '' ORDER BY '' @ t @ ''.'' @ s @ '' '' @ d)
      (Some \<lparr>Q = None, Page = None, PerPage = None, Sort = Some ''rating'',
             Direction = Some ''DESC''\<rparr>)
     = '' ORDER BY movies.rating DESC''
   \<and> getMovieSort (\<lambda>s d t. '' ORDER BY '' @ t @ ''.'' @ s @ '' '' @ d)
      (Some \<lparr>Q = None, Page = None, PerPage = None, Sort = None, Direction = None\<rparr>)
     = '' ORDER BY movies.name COLLATE NATURAL_CS ASC''"
  using getMovieSort_spec
    [of "\<lambda>s d t. '' ORDER BY '' @ t @ ''.'' @ s @ '' '' @ d"
        "\<lparr>Q = None, Page = None, PerPage = None, Sort = Some ''name'',
          Direction = Some ''DESC''\<rparr>"]
    getMovieSort_spec
    [of "\<lambda>s d t. '' ORDER BY '' @ t @ ''.'' @ s @ '' '' @ d"
        "\<lparr>Q = None, Page = None, PerPage = None, Sort = Some ''rating'',
          Direction = Some ''DESC''\<rparr>"]
    getMovieSort_spec
    [of "\<lambda>s d t. '' ORDER BY '' @ t @ ''.'' @ s @ '' '' @ d"
        "\<lparr>Q = None, Page = None, PerPage = None, Sort = None, Direction = None\<rparr>"]
  by (simp add: GetSort_def GetDirection_def)

subsection \<open>Reads and statements\<close>

lemma take1_filter_find:
  "(case take (Suc 0) (filter P xs) of [] \<Rightarrow> Inr None | r # rs \<Rightarrow> Inr (Some r))
     = Inr (List.find P xs)"
  by (induction xs) auto

lemma Find_ok:
  "engine_error env (SelectMovie i) d = None \<Longrightarrow>
   Find env i d = Inr (List.find (\<lambda>m. ID m = i) (movies d))"
  by (simp add: Find_def queryMovie_def queryMovies_def take1_filter_find)

lemma Find_error:
  "engine_error env (SelectMovie i) d = Some msg \<Longrightarrow> Find env i d = Inl (StorageError msg)"
  by (simp add: Find_def queryMovie_def queryMovies_def)

lemma find_Some_mem: "List.find P xs = Some x \<Longrightarrow> x \<in> set xs \<and> P x"
  by (induction xs) (auto split: if_splits)

lemma find_row_exists:
  assumes "m \<in> set xs" and "P m"
  shows "\<exists>r. List.find P xs = Some r"
  using assms by (cases "List.find P xs") (auto simp: find_None_iff)

subsection \<open>Destroy\<close>

text \<open>
  C6. \<^verbatim>\<open>Destroy\<close> deletes the join-table rows of the id first and the movie row after
  them: when the first delete is refused nothing is deleted, when the second is refused
  only the join-table rows are gone, and when neither is refused both are gone. On an
  id that no row refers to, both deletes pass without error and change nothing.
\<close>

theorem Destroy_spec:
  "(engine_error env (DeleteMoviesScenes i) tx = Some msg \<longrightarrow>
      Destroy env i tx = (tx, Some (StorageError msg)))
   \<and> (engine_error env (DeleteMoviesScenes i) tx = None
      \<and> engine_error env (DeleteByID ''movies'' i)
           (tx\<lparr>movies_scenes := filter (\<lambda>r. \<not> text_is_key env i (fst r)) (movies_scenes tx)\<rparr>)
         = Some msg \<longrightarrow>
      Destroy env i tx
        = (tx\<lparr>movies_scenes := filter (\<lambda>r. \<not> text_is_key env i (fst r)) (movies_scenes tx)\<rparr>,
           Some (StorageError msg)))
   \<and> (engine_error env (DeleteMoviesScenes i) tx = None
      \<and> engine_error env (DeleteByID ''movies'' i)
           (tx\<lparr>movies_scenes := filter (\<lambda>r. \<not> text_is_key env i (fst r)) (movies_scenes tx)\<rparr>)
         = None \<longrightarrow>
      Destroy env i tx
        = (tx\<lparr>movies_scenes := filter (\<lambda>r. \<not> text_is_key env i (fst r)) (movies_scenes tx),
              movies := filter (\<lambda>m. \<not> text_is_key env i (ID m)) (movies tx)\<rparr>,
           None))
   \<and> (engine_error env (DeleteMoviesScenes i) tx = None
      \<and> engine_error env (DeleteByID ''movies'' i) tx = None
      \<and> (\<forall>r\<in>set (movies_scenes tx). \<not> text_is_key env i (fst r))
      \<and> (\<forall>m\<in>set (movies tx). \<not> text_is_key env i (ID m)) \<longrightarrow>
      Destroy env i tx = (tx, None))"
  by (auto simp add: Destroy_def executeDeleteQuery_def exec_def)

text \<open>On the sample tables: destroying movie 2 removes its two join rows and its row,
  destroying the absent movie 7 changes nothing, and when the engine refuses the delete
  of the movie row the join rows are already gone.\<close>

theorem Destroy_spec_witness:
  "Destroy sample_env ''2'' sample_db
     = (\<lparr>movies = [sample_movie 1 ''A''], movies_scenes = [(1, 10)],
         movies_images = [\<lparr>movie_id = 1, front_image = Some [1, 2], back_image = None\<rparr>]\<rparr>,
        None)
   \<and> Destroy sample_env ''7'' sample_db = (sample_db, None)
   \<and> Destroy sample_failing_env ''2'' sample_db
     = (\<lparr>movies = [sample_movie 1 ''A'', sample_movie 2 ''B''], movies_scenes = [(1, 10)],
         movies_images = [\<lparr>movie_id = 1, front_image = Some [1, 2], back_image = None\<rparr>]\<rparr>,
        Some (StorageError ''database is locked''))"
  using Destroy_spec [of sample_env "''2''" sample_db "''''"]
    Destroy_spec [of sample_env "''7''" sample_db "''''"]
    Destroy_spec [of sample_failing_env "''2''" sample_db "''database is locked''"]
  by (simp add: sample_failing_env_def sample_env_def sample_db_def sample_Atoi_def
      sample_movie_def)

subsection \<open>Bulk destroy\<close>

lemma Destroy_deletes_ok:
  "engine_error env (DeleteMoviesScenes i) tx = None \<Longrightarrow>
   engine_error env (DeleteByID ''movies'' i)
      (tx\<lparr>movies_scenes := filter (\<lambda>r. \<not> text_is_key env i (fst r)) (movies_scenes tx)\<rparr>)
     = None \<Longrightarrow>
   Destroy env i tx
     = (tx\<lparr>movies_scenes := filter (\<lambda>r. \<not> text_is_key env i (fst r)) (movies_scenes tx),
           movies := filter (\<lambda>m. \<not> text_is_key env i (ID m)) (movies tx)\<rparr>,
        None)"
  by (simp add: Destroy_def executeDeleteQuery_def exec_def)

lemma MoviesDestroy_loop_ok:
  "\<forall>i\<in>set ids. \<forall>t. engine_error env (DeleteMoviesScenes i) t = None
       \<and> engine_error env (DeleteByID ''movies'' i) t = None \<Longrightarrow>
   MoviesDestroy_loop env ids tx
     = (tx\<lparr>movies_scenes :=
            filter (\<lambda>r. \<forall>i\<in>set ids. \<not> text_is_key env i (fst r)) (movies_scenes tx),
           movies := filter (\<lambda>m. \<forall>i\<in>set ids. \<not> text_is_key env i (ID m)) (movies tx)\<rparr>,
        None)"
proof (induction ids arbitrary: tx)
  case Nil
  then show ?case by simp
next
  case (Cons i ids)
  have f: "\<And>P Q xs. filter P (filter Q xs) = filter (\<lambda>x. Q x \<and> P x) xs"
    by (simp add: conj_commute)
  from Cons.prems show ?case
    by (simp add: Destroy_deletes_ok Cons.IH f)
qed

lemma Destroy_success:
  assumes "Destroy env i tx = (tx', None)"
  shows "tx' = tx\<lparr>movies_scenes := filter (\<lambda>r. \<not> text_is_key env i (fst r)) (movies_scenes tx),
                    movies := filter (\<lambda>m. \<not> text_is_key env i (ID m)) (movies tx)\<rparr>"
proof (cases "engine_error env (DeleteMoviesScenes i) tx")
  case (Some msg)
  with assms show ?thesis by (simp add: Destroy_def exec_def)
next
  case None
  let ?t = "tx\<lparr>movies_scenes := filter (\<lambda>r. \<not> text_is_key env i (fst r)) (movies_scenes tx)\<rparr>"
  show ?thesis
  proof (cases "engine_error env (DeleteByID ''movies'' i) ?t")
    case (Some msg)
    with None assms show ?thesis by (simp add: Destroy_def executeDeleteQuery_def exec_def)
  next
    case n2: None
    with None assms show ?thesis by (simp add: Destroy_def executeDeleteQuery_def exec_def)
  qed
qed

lemma MoviesDestroy_loop_success:
  "MoviesDestroy_loop env ids tx = (tx', None) \<Longrightarrow>
   tx' = tx\<lparr>movies_scenes :=
              filter (\<lambda>r. \<forall>i\<in>set ids. \<not> text_is_key env i (fst r)) (movies_scenes tx),
            movies := filter (\<lambda>m. \<forall>i\<in>set ids. \<not> text_is_key env i (ID m)) (movies tx)\<rparr>"
proof (induction ids arbitrary: tx)
  case Nil
  then show ?case by simp
next
  case (Cons i ids)
  have f: "\<And>P Q xs. filter P (filter Q xs) = filter (\<lambda>x. Q x \<and> P x) xs"
    by (simp add: conj_commute)
  obtain t1 r where d: "Destroy env i tx = (t1, r)" by (cases "Destroy env i tx")
  with Cons.prems have r: "r = None" by (cases r) simp_all
  with d Cons.prems have l: "MoviesDestroy_loop env ids t1 = (tx', None)" by simp
  from d r have "t1 = tx\<lparr>movies_scenes := filter (\<lambda>r. \<not> text_is_key env i (fst r)) (movies_scenes tx),
                    movies := filter (\<lambda>m. \<not> text_is_key env i (ID m)) (movies tx)\<rparr>"
    by (simp add: Destroy_success)
  with Cons.IH [OF l] show ?case by (simp add: f)
qed

lemma MoviesDestroy_loop_append:
  "MoviesDestroy_loop env pre tx = (t1, None) \<Longrightarrow>
   MoviesDestroy_loop env (pre @ rest) tx = MoviesDestroy_loop env rest t1"
proof (induction pre arbitrary: tx)
  case Nil
  then show ?case by simp
next
  case (Cons i pre)
  obtain t0 r where d: "Destroy env i tx = (t0, r)" by (cases "Destroy env i tx")
  with Cons.prems have r: "r = None" by (cases r) simp_all
  with d Cons show ?case by simp
qed

text \<open>
  C5. In a bulk destroy, when the deletes of the ids before some id have succeeded and
  the delete of that id fails in the tables reached, the call returns false with that
  error and the committed tables are what they were before the call: the ids already
  destroyed are not deleted and the ids after the failure are never tried. Whenever
  the loop stops with an error, or the commit is refused, the committed tables are
  unchanged. When the loop ends without error it has removed every row of \<^verbatim>\<open>movies\<close> and
  \<^verbatim>\<open>movies_scenes\<close> that refers to one of the ids, and when the commit is not refused the
  call returns true with these tables committed. With an engine that refuses no delete
  and not the commit this is what happens.
\<close>

theorem MoviesDestroy_spec:
  "(MoviesDestroy_loop env pre d = (t1, None) \<and> snd (Destroy env bad t1) = Some err \<longrightarrow>
      MoviesDestroy env (pre @ bad # post) d = (d, False, Some err))
   \<and> (MoviesDestroy_loop env ids d = (tx', Some err) \<longrightarrow>
      MoviesDestroy env ids d = (d, False, Some err))
   \<and> (MoviesDestroy_loop env ids d = (tx', None) \<longrightarrow>
      tx' = d\<lparr>movies_scenes :=
                filter (\<lambda>r. \<forall>i\<in>set ids. \<not> text_is_key env i (fst r)) (movies_scenes d),
              movies := filter (\<lambda>m. \<forall>i\<in>set ids. \<not> text_is_key env i (ID m)) (movies d)\<rparr>
      \<and> (engine_error env Commit tx' = None \<longrightarrow>
            MoviesDestroy env ids d = (tx', True, None))
      \<and> (engine_error env Commit tx' = Some msg \<longrightarrow>
            MoviesDestroy env ids d = (d, False, Some (StorageError msg))))
   \<and> ((\<forall>i\<in>set ids. \<forall>t. engine_error env (DeleteMoviesScenes i) t = None
            \<and> engine_error env (DeleteByID ''movies'' i) t = None)
      \<and> (\<forall>t. engine_error env Commit t = None) \<longrightarrow>
      MoviesDestroy env ids d
        = (d\<lparr>movies_scenes :=
               filter (\<lambda>r. \<forall>i\<in>set ids. \<not> text_is_key env i (fst r)) (movies_scenes d),
              movies := filter (\<lambda>m. \<forall>i\<in>set ids. \<not> text_is_key env i (ID m)) (movies d)\<rparr>,
           True, None))"
proof (intro conjI impI)
  assume a: "MoviesDestroy_loop env pre d = (t1, None) \<and> snd (Destroy env bad t1) = Some err"
  then obtain t2 where "Destroy env bad t1 = (t2, Some err)"
    by (cases "Destroy env bad t1") auto
  with a have "MoviesDestroy_loop env (pre @ bad # post) d = (t2, Some err)"
    by (simp add: MoviesDestroy_loop_append)
  then show "MoviesDestroy env (pre @ bad # post) d = (d, False, Some err)"
    by (simp add: MoviesDestroy_def)
next
  assume "MoviesDestroy_loop env ids d = (tx', Some err)"
  then show "MoviesDestroy env ids d = (d, False, Some err)"
    by (simp add: MoviesDestroy_def)
next
  assume "MoviesDestroy_loop env ids d = (tx', None)"
  then show "tx' = d\<lparr>movies_scenes :=
                filter (\<lambda>r. \<forall>i\<in>set ids. \<not> text_is_key env i (fst r)) (movies_scenes d),
              movies := filter (\<lambda>m. \<forall>i\<in>set ids. \<not> text_is_key env i (ID m)) (movies d)\<rparr>"
    by (rule MoviesDestroy_loop_success)
next
  assume "MoviesDestroy_loop env ids d = (tx', None)" and "engine_error env Commit tx' = None"
  then show "MoviesDestroy env ids d = (tx', True, None)"
    by (simp add: MoviesDestroy_def tx_Commit_def)
next
  assume "MoviesDestroy_loop env ids d = (tx', None)" and "engine_error env Commit tx' = Some msg"
  then show "MoviesDestroy env ids d = (d, False, Some (StorageError msg))"
    by (simp add: MoviesDestroy_def tx_Commit_def)
next
  assume "(\<forall>i\<in>set ids. \<forall>t. engine_error env (DeleteMoviesScenes i) t = None
            \<and> engine_error env (DeleteByID ''movies'' i) t = None)
      \<and> (\<forall>t. engine_error env Commit t = None)"
  then show "MoviesDestroy env ids d
        = (d\<lparr>movies_scenes :=
               filter (\<lambda>r. \<forall>i\<in>set ids. \<not> text_is_key env i (fst r)) (movies_scenes d),
              movies := filter (\<lambda>m. \<forall>i\<in>set ids. \<not> text_is_key env i (ID m)) (movies d)\<rparr>,
           True, None)"
    by (simp add: MoviesDestroy_def MoviesDestroy_loop_ok tx_Commit_def)
qed

text \<open>On the sample tables: when the engine refuses to delete movie 2 once movie 1 is
  gone, the bulk destroy of 1, 2, 3 leaves the committed tables as they were; when it
  refuses nothing, no movie and no join row is left.\<close>

theorem MoviesDestroy_spec_witness:
  "MoviesDestroy sample_late_failing_env [''1'', ''2'', ''3''] sample_db
     = (sample_db, False, Some (StorageError ''database is locked''))
   \<and> MoviesDestroy sample_env [''1'', ''2'', ''3''] sample_db
     = (\<lparr>movies = [], movies_scenes = [],
         movies_images = [\<lparr>movie_id = 1, front_image = Some [1, 2], back_image = None\<rparr>]\<rparr>,
        True, None)"
  using MoviesDestroy_spec [of sample_late_failing_env "[''1'']" sample_db
      "sample_db\<lparr>movies := [sample_movie 2 ''B''], movies_scenes := [(2, 10), (2, 11)]\<rparr>"
      "''2''" "StorageError ''database is locked''" "[''3'']" "[]" sample_db "''''"]
    MoviesDestroy_spec [of sample_env "[]" sample_db sample_db "''0''" ErrNoRows "[]"
      "[''1'', ''2'', ''3'']" sample_db "''''"]
  by (simp add: sample_late_failing_env_def sample_env_def sample_db_def sample_Atoi_def
      sample_movie_def Destroy_def executeDeleteQuery_def exec_def)

subsection \<open>FindMany\<close>

lemma FindMany_loop_ok:
  "\<forall>i\<in>set ids. engine_error env (SelectMovie i) d = None \<Longrightarrow>
   \<forall>i\<in>set ids. \<exists>m\<in>set (movies d). ID m = i \<Longrightarrow>
   FindMany_loop env ids acc d
     = Inr (acc @ map (\<lambda>i. the (List.find (\<lambda>m. ID m = i) (movies d))) ids)"
proof (induction ids arbitrary: acc)
  case Nil
  then show ?case by simp
next
  case (Cons i ids)
  from Cons.prems obtain m0 where "m0 \<in> set (movies d)" "ID m0 = i" by auto
  then obtain m where "List.find (\<lambda>m. ID m = i) (movies d) = Some m"
    using find_row_exists [of m0 "movies d" "\<lambda>m. ID m = i"] by auto
  with Cons show ?case by (simp add: Find_ok)
qed

lemma FindMany_loop_stops:
  "\<forall>i\<in>set pre. engine_error env (SelectMovie i) d = None \<Longrightarrow>
   \<forall>i\<in>set pre. \<exists>m\<in>set (movies d). ID m = i \<Longrightarrow>
   FindMany_loop env (pre @ bad # post) acc d
     = (case Find env bad d of
          Inl err \<Rightarrow> Inl err
        | Inr None \<Rightarrow> Inl (MovieNotFound bad)
        | Inr (Some movie) \<Rightarrow> FindMany_loop env post
            (acc @ map (\<lambda>i. the (List.find (\<lambda>m. ID m = i) (movies d))) pre @ [movie]) d)"
proof (induction pre arbitrary: acc)
  case Nil
  then show ?case by (simp split: sum.splits option.splits)
next
  case (Cons i pre)
  from Cons.prems obtain m0 where "m0 \<in> set (movies d)" "ID m0 = i" by auto
  then obtain m where "List.find (\<lambda>m. ID m = i) (movies d) = Some m"
    using find_row_exists [of m0 "movies d" "\<lambda>m. ID m = i"] by auto
  with Cons show ?case by (simp add: Find_ok split: sum.splits option.splits)
qed

text \<open>
  C7. When every id has a row, \<^verbatim>\<open>FindMany\<close> returns one record per id, the record of
  the k-th id at position k. When an id has no row and every id before it has one,
  \<^verbatim>\<open>FindMany\<close> returns no list but the not-found error of that id; an engine error on an
  id is returned the same way.
\<close>

theorem FindMany_spec:
  "((\<forall>i\<in>set ids. engine_error env (SelectMovie i) d = None)
      \<and> (\<forall>i\<in>set ids. \<exists>m\<in>set (movies d). ID m = i) \<longrightarrow>
      (\<exists>ms. FindMany env ids d = Inr ms \<and> map ID ms = ids \<and> set ms \<subseteq> set (movies d)))
   \<and> ((\<forall>i\<in>set pre. engine_error env (SelectMovie i) d = None)
      \<and> (\<forall>i\<in>set pre. \<exists>m\<in>set (movies d). ID m = i)
      \<and> engine_error env (SelectMovie bad) d = None
      \<and> (\<forall>m\<in>set (movies d). ID m \<noteq> bad) \<longrightarrow>
      FindMany env (pre @ bad # post) d = Inl (MovieNotFound bad))
   \<and> ((\<forall>i\<in>set pre. engine_error env (SelectMovie i) d = None)
      \<and> (\<forall>i\<in>set pre. \<exists>m\<in>set (movies d). ID m = i)
      \<and> engine_error env (SelectMovie bad) d = Some msg \<longrightarrow>
      FindMany env (pre @ bad # post) d = Inl (StorageError msg))"
proof (intro conjI impI)
  assume a: "(\<forall>i\<in>set ids. engine_error env (SelectMovie i) d = None)
      \<and> (\<forall>i\<in>set ids. \<exists>m\<in>set (movies d). ID m = i)"
  let ?ms = "map (\<lambda>i. the (List.find (\<lambda>m. ID m = i) (movies d))) ids"
  have 1: "FindMany env ids d = Inr ?ms"
    using a FindMany_loop_ok [of ids env d "[]"] by (simp add: FindMany_def)
  have 2: "\<forall>i\<in>set ids. \<exists>m. List.find (\<lambda>m. ID m = i) (movies d) = Some m"
  proof
    fix i assume "i \<in> set ids"
    with a obtain m where "m \<in> set (movies d)" "ID m = i" by blast
    then show "\<exists>m. List.find (\<lambda>m. ID m = i) (movies d) = Some m"
      using find_row_exists [of m "movies d" "\<lambda>m. ID m = i"] by simp
  qed
  have 3: "map ID ?ms = ids"
    using 2 by (induction ids) (auto dest: find_Some_mem)
  have 4: "set ?ms \<subseteq> set (movies d)"
  proof
    fix x assume "x \<in> set ?ms"
    then obtain i where i: "i \<in> set ids" "x = the (List.find (\<lambda>m. ID m = i) (movies d))"
      by auto
    with 2 obtain m where "List.find (\<lambda>m. ID m = i) (movies d) = Some m" by blast
    with i show "x \<in> set (movies d)" by (auto dest: find_Some_mem)
  qed
  from 1 3 4
  show "\<exists>ms. FindMany env ids d = Inr ms \<and> map ID ms = ids \<and> set ms \<subseteq> set (movies d)"
    by blast
next
  assume a: "(\<forall>i\<in>set pre. engine_error env (SelectMovie i) d = None)
      \<and> (\<forall>i\<in>set pre. \<exists>m\<in>set (movies d). ID m = i)
      \<and> engine_error env (SelectMovie bad) d = None
      \<and> (\<forall>m\<in>set (movies d). ID m \<noteq> bad)"
  then have "List.find (\<lambda>m. ID m = bad) (movies d) = None"
    by (simp add: find_None_iff)
  with a show "FindMany env (pre @ bad # post) d = Inl (MovieNotFound bad)"
    using FindMany_loop_stops [of pre env d bad post "[]"]
    by (simp add: FindMany_def Find_ok)
next
  assume a: "(\<forall>i\<in>set pre. engine_error env (SelectMovie i) d = None)
      \<and> (\<forall>i\<in>set pre. \<exists>m\<in>set (movies d). ID m = i)
      \<and> engine_error env (SelectMovie bad) d = Some msg"
  then show "FindMany env (pre @ bad # post) d = Inl (StorageError msg)"
    using FindMany_loop_stops [of pre env d bad post "[]"]
    by (simp add: FindMany_def Find_error)
qed

text \<open>On the sample tables: the ids 2, 1 give the two records in that order; the ids 1, 5, 2
  give the not-found error of 5.\<close>

theorem FindMany_spec_witness:
  "(\<exists>ms. FindMany sample_env [2, 1] sample_db = Inr ms \<and> map ID ms = [2, 1]
        \<and> set ms \<subseteq> set (movies sample_db))
   \<and> FindMany sample_env [1, 5, 2] sample_db = Inl (MovieNotFound 5)"
  using FindMany_spec [of "[2, 1]" sample_env sample_db "[1]" 5 "[2]" "''''"]
  by (simp add: sample_env_def sample_db_def sample_movie_def)

subsection \<open>Update\<close>

lemma set_column_ID: "ID (set_column p k m) = ID m"
  by (simp add: set_column_def split: option.splits)

lemma update_row_ID: "ID (update_row ks p m) = ID m"
  unfolding update_row_def
  by (induction ks arbitrary: m) (simp_all add: set_column_ID)

lemma find_map_ID:
  assumes "\<And>m. ID (f m) = ID m"
  shows "List.find (\<lambda>m. ID m = i) (map f ms) = map_option f (List.find (\<lambda>m. ID m = i) ms)"
  using assms by (induction ms) auto

lemma update_rows_find:
  "List.find (\<lambda>m. ID m = i) (map (\<lambda>m. if ID m = j then update_row ks p m else m) ms)
     = map_option (\<lambda>m. if ID m = j then update_row ks p m else m)
         (List.find (\<lambda>m. ID m = i) ms)"
  by (rule find_map_ID) (simp add: update_row_ID)

lemma update_rows_absent:
  "\<forall>m\<in>set ms. ID m \<noteq> j \<Longrightarrow> map (\<lambda>m. if ID m = j then f m else m) ms = ms"
  by (induction ms) auto

text \<open>The sample tables hold no movie 9: \<^verbatim>\<open>Update\<close> on a patch for it returns a nil
  record and no error.\<close>

theorem Update_absent_counterexample:
  "Update sample_env sample_patch sample_db = (sample_db, Inr None)"
  by (simp add: Update_def exec_def Find_def queryMovie_def queryMovies_def
      sample_env_def sample_patch_def sample_db_def sample_movie_def)

text \<open>
  C3, amended. When the engine refuses nothing: \<^verbatim>\<open>Update\<close> on a patch whose id matches
  no row changes nothing and returns no record and no error; on a patch whose id matches
  a row it returns the row as re-read after the update, which is the stored row with
  the columns of the SET-list written. An error of the engine on the UPDATE is returned
  as it is.
\<close>

theorem Update_spec:
  "(engine_error env (UpdateMovies (SQLGenKeysPartial p) p) tx = Some msg \<longrightarrow>
      Update env p tx = (tx, Inl (StorageError msg)))
   \<and> (engine_error env (UpdateMovies (SQLGenKeysPartial p) p) tx = None
      \<and> engine_error env (SelectMovie (pID p)) tx = None
      \<and> (\<forall>m\<in>set (movies tx). ID m \<noteq> pID p) \<longrightarrow>
      Update env p tx = (tx, Inr None))
   \<and> (engine_error env (UpdateMovies (SQLGenKeysPartial p) p) tx = None
      \<and> engine_error env (SelectMovie (pID p))
           (apply_stmt env (UpdateMovies (SQLGenKeysPartial p) p) tx) = None
      \<and> List.find (\<lambda>m. ID m = pID p) (movies tx) = Some m0 \<longrightarrow>
      Update env p tx
        = (apply_stmt env (UpdateMovies (SQLGenKeysPartial p) p) tx,
           Inr (Some (update_row (SQLGenKeysPartial p) p m0)))
      \<and> Find env (pID p) (apply_stmt env (UpdateMovies (SQLGenKeysPartial p) p) tx)
        = Inr (Some (update_row (SQLGenKeysPartial p) p m0))
      \<and> update_row (SQLGenKeysPartial p) p m0
        \<in> set (movies (apply_stmt env (UpdateMovies (SQLGenKeysPartial p) p) tx)))"
proof (intro conjI impI)
  assume "engine_error env (UpdateMovies (SQLGenKeysPartial p) p) tx = Some msg"
  then show "Update env p tx = (tx, Inl (StorageError msg))"
    by (simp add: Update_def exec_def)
next
  assume a: "engine_error env (UpdateMovies (SQLGenKeysPartial p) p) tx = None
      \<and> engine_error env (SelectMovie (pID p)) tx = None
      \<and> (\<forall>m\<in>set (movies tx). ID m \<noteq> pID p)"
  then have same: "apply_stmt env (UpdateMovies (SQLGenKeysPartial p) p) tx = tx"
    by (simp add: update_rows_absent)
  from a have "List.find (\<lambda>m. ID m = pID p) (movies tx) = None"
    by (simp add: find_None_iff)
  with a same show "Update env p tx = (tx, Inr None)"
    by (simp add: Update_def exec_def Find_ok del: apply_stmt.simps)
next
  assume a: "engine_error env (UpdateMovies (SQLGenKeysPartial p) p) tx = None
      \<and> engine_error env (SelectMovie (pID p))
           (apply_stmt env (UpdateMovies (SQLGenKeysPartial p) p) tx) = None
      \<and> List.find (\<lambda>m. ID m = pID p) (movies tx) = Some m0"
  let ?tx = "apply_stmt env (UpdateMovies (SQLGenKeysPartial p) p) tx"
  from a have m0: "ID m0 = pID p" by (auto dest: find_Some_mem)
  have f: "List.find (\<lambda>m. ID m = pID p) (movies ?tx)
             = Some (update_row (SQLGenKeysPartial p) p m0)"
    using a m0 by (simp add: update_rows_find)
  from a f have r: "Find env (pID p) ?tx = Inr (Some (update_row (SQLGenKeysPartial p) p m0))"
    by (simp add: Find_ok del: apply_stmt.simps)
  from a r show "Update env p tx = (?tx, Inr (Some (update_row (SQLGenKeysPartial p) p m0)))"
    by (simp add: Update_def exec_def del: apply_stmt.simps)
  from r show "Find env (pID p) ?tx = Inr (Some (update_row (SQLGenKeysPartial p) p m0))" .
  from f show "update_row (SQLGenKeysPartial p) p m0 \<in> set (movies ?tx)"
    by (auto dest: find_Some_mem)
qed

text \<open>On the sample tables: the patch that clears the rating of movie 2 returns the row
  as re-read; the same patch for movie 9 returns nothing.\<close>

theorem Update_spec_witness:
  "Update sample_env (sample_patch\<lparr>pID := 2\<rparr>) sample_db
     = (sample_db\<lparr>movies :=
          [sample_movie 1 ''A'', (sample_movie 2 ''B'')\<lparr>Rating := null_int64, UpdatedAt := 100\<rparr>]\<rparr>,
        Inr (Some ((sample_movie 2 ''B'')\<lparr>Rating := null_int64, UpdatedAt := 100\<rparr>)))
   \<and> Update sample_env sample_patch sample_db = (sample_db, Inr None)"
  using Update_spec [of sample_env "sample_patch\<lparr>pID := 2\<rparr>" sample_db "''''"
      "sample_movie 2 ''B''"]
    Update_spec [of sample_env sample_patch sample_db "''''" "sample_movie 2 ''B''"]
  by (simp add: sample_env_def sample_patch_def sample_db_def sample_movie_def
      SQLGenKeysPartial_def update_row_def set_column_def)

subsection \<open>Query\<close>

text \<open>The sample tables hold no movie 5: when the id query gives 1, 5, 2 the list returned
  has three entries, the second of them nil.\<close>

theorem Query_hydration_counterexample:
  "fst (Query sample_env ([1, 5, 2], 3) sample_db)
     = [Some (sample_movie 1 ''A''), None, Some (sample_movie 2 ''B'')]"
  by (simp add: Query_def Find_def queryMovie_def queryMovies_def
      sample_env_def sample_db_def sample_movie_def)

text \<open>
  C4, amended. \<^verbatim>\<open>Query\<close> returns one entry per id of the id query, in its order, and
  the count of the count query. The entry of an id whose hydration is refused by the
  engine or finds no row is a nil record and no error is reported; the entry of every
  other id is a stored record with that id.
\<close>

theorem Query_hydration:
  "length (fst (Query env (ids, n) d)) = length ids
   \<and> snd (Query env (ids, n) d) = n
   \<and> (k < length ids
        \<and> (engine_error env (SelectMovie (ids ! k)) d \<noteq> None
            \<or> (\<forall>m\<in>set (movies d). ID m \<noteq> ids ! k)) \<longrightarrow>
        fst (Query env (ids, n) d) ! k = None)
   \<and> (k < length ids
        \<and> engine_error env (SelectMovie (ids ! k)) d = None
        \<and> (\<exists>m\<in>set (movies d). ID m = ids ! k) \<longrightarrow>
        (\<exists>m\<in>set (movies d). ID m = ids ! k \<and> fst (Query env (ids, n) d) ! k = Some m))"
proof (intro conjI impI)
  show "length (fst (Query env (ids, n) d)) = length ids" by (simp add: Query_def)
  show "snd (Query env (ids, n) d) = n" by (simp add: Query_def)
next
  assume a: "k < length ids
        \<and> (engine_error env (SelectMovie (ids ! k)) d \<noteq> None
            \<or> (\<forall>m\<in>set (movies d). ID m \<noteq> ids ! k))"
  show "fst (Query env (ids, n) d) ! k = None"
  proof (cases "engine_error env (SelectMovie (ids ! k)) d")
    case (Some msg)
    with a show ?thesis by (simp add: Query_def Find_error)
  next
    case None
    with a have "List.find (\<lambda>m. ID m = ids ! k) (movies d) = None"
      by (simp add: find_None_iff)
    with None a show ?thesis by (simp add: Query_def Find_ok)
  qed
next
  assume a: "k < length ids
        \<and> engine_error env (SelectMovie (ids ! k)) d = None
        \<and> (\<exists>m\<in>set (movies d). ID m = ids ! k)"
  then obtain m0 where "m0 \<in> set (movies d)" "ID m0 = ids ! k" by blast
  then obtain m where m: "List.find (\<lambda>m. ID m = ids ! k) (movies d) = Some m"
    using find_row_exists [of m0 "movies d" "\<lambda>m. ID m = ids ! k"] by auto
  with a have "fst (Query env (ids, n) d) ! k = Some m"
    by (simp add: Query_def Find_ok)
  with m show "\<exists>m\<in>set (movies d). ID m = ids ! k \<and> fst (Query env (ids, n) d) ! k = Some m"
    by (auto dest: find_Some_mem)
qed

text \<open>On the sample tables, for the ids 1, 5, 2.\<close>

theorem Query_hydration_witness:
  "length (fst (Query sample_env ([1, 5, 2], 3) sample_db)) = 3
   \<and> fst (Query sample_env ([1, 5, 2], 3) sample_db) ! 1 = None
   \<and> (\<exists>m\<in>set (movies sample_db).
        ID m = 2 \<and> fst (Query sample_env ([1, 5, 2], 3) sample_db) ! 2 = Some m)"
proof -
  have e: "\<And>i. engine_error sample_env (SelectMovie i) sample_db = None"
    by (simp add: sample_env_def)
  have a: "\<forall>m\<in>set (movies sample_db). ID m \<noteq> [1, 5, 2] ! 1"
    by (simp add: sample_db_def sample_movie_def)
  have b: "\<exists>m\<in>set (movies sample_db). ID m = [1, 5, 2] ! 2"
    by (simp add: sample_db_def sample_movie_def)
  from Query_hydration [of sample_env "[1, 5, 2]" 3 sample_db 1] a
  have 1: "length (fst (Query sample_env ([1, 5, 2], 3) sample_db)) = 3
    \<and> fst (Query sample_env ([1, 5, 2], 3) sample_db) ! 1 = None"
    by simp
  from Query_hydration [of sample_env "[1, 5, 2]" 3 sample_db 2] e b
  have 2: "\<exists>m\<in>set (movies sample_db).
        ID m = 2 \<and> fst (Query sample_env ([1, 5, 2], 3) sample_db) ! 2 = Some m"
    by simp
  from 1 2 show ?thesis by simp
qed

subsection \<open>What an UPDATE writes\<close>

lemma in_set_optional_key: "x \<in> set (if c then [k] else []) \<longleftrightarrow> c \<and> x = k"
  by auto

lemma set_column_Checksum:
  "Checksum (set_column p k m)
     = (if k = ''checksum'' then (case pChecksum p of None \<Rightarrow> Checksum m | Some v \<Rightarrow> v)
        else Checksum m)"
  by (simp add: set_column_def split: option.splits)

lemma update_row_Checksum:
  "Checksum (update_row ks p m)
     = (if ''checksum'' \<in> set ks
        then (case pChecksum p of None \<Rightarrow> Checksum m | Some v \<Rightarrow> v) else Checksum m)"
  unfolding update_row_def
  by (induction ks arbitrary: m) (simp_all add: set_column_Checksum split: option.splits)

lemma keys_Checksum: "''checksum'' \<in> set (SQLGenKeysPartial p) \<longleftrightarrow> pChecksum p \<noteq> None"
  by (simp add: SQLGenKeysPartial_def in_set_optional_key del: set_simps)

lemma set_column_Name:
  "Name (set_column p k m)
     = (if k = ''name'' then (case pName p of None \<Rightarrow> null_string | Some v \<Rightarrow> v) else Name m)"
  by (simp add: set_column_def split: option.splits)

lemma update_row_Name:
  "Name (update_row ks p m)
     = (if ''name'' \<in> set ks then (case pName p of None \<Rightarrow> null_string | Some v \<Rightarrow> v) else Name m)"
  unfolding update_row_def
  by (induction ks arbitrary: m) (simp_all add: set_column_Name)

lemma keys_Name: "''name'' \<in> set (SQLGenKeysPartial p) \<longleftrightarrow> pName p \<noteq> None"
  by (simp add: SQLGenKeysPartial_def in_set_optional_key del: set_simps)

lemma set_column_Aliases:
  "Aliases (set_column p k m)
     = (if k = ''aliases'' then (case pAliases p of None \<Rightarrow> null_string | Some v \<Rightarrow> v) else Aliases m)"
  by (simp add: set_column_def split: option.splits)

lemma update_row_Aliases:
  "Aliases (update_row ks p m)
     = (if ''aliases'' \<in> set ks then (case pAliases p of None \<Rightarrow> null_string | Some v \<Rightarrow> v) else Aliases m)"
  unfolding update_row_def
  by (induction ks arbitrary: m) (simp_all add: set_column_Aliases)

lemma keys_Aliases: "''aliases'' \<in> set (SQLGenKeysPartial p) \<longleftrightarrow> pAliases p \<noteq> None"
  by (simp add: SQLGenKeysPartial_def in_set_optional_key del: set_simps)

lemma set_column_Duration:
  "Duration (set_column p k m)
     = (if k = ''duration'' then (case pDuration p of None \<Rightarrow> null_int64 | Some v \<Rightarrow> v) else Duration m)"
  by (simp add: set_column_def split: option.splits)

lemma update_row_Duration:
  "Duration (update_row ks p m)
     = (if ''duration'' \<in> set ks then (case pDuration p of None \<Rightarrow> null_int64 | Some v \<Rightarrow> v) else Duration m)"
  unfolding update_row_def
  by (induction ks arbitrary: m) (simp_all add: set_column_Duration)

lemma keys_Duration: "''duration'' \<in> set (SQLGenKeysPartial p) \<longleftrightarrow> pDuration p \<noteq> None"
  by (simp add: SQLGenKeysPartial_def in_set_optional_key del: set_simps)

lemma set_column_Date:
  "Date (set_column p k m)
     = (if k = ''date'' then (case pDate p of None \<Rightarrow> null_string | Some v \<Rightarrow> v) else Date m)"
  by (simp add: set_column_def split: option.splits)

lemma update_row_Date:
  "Date (update_row ks p m)
     = (if ''date'' \<in> set ks then (case pDate p of None \<Rightarrow> null_string | Some v \<Rightarrow> v) else Date m)"
  unfolding update_row_def
  by (induction ks arbitrary: m) (simp_all add: set_column_Date)

lemma keys_Date: "''date'' \<in> set (SQLGenKeysPartial p) \<longleftrightarrow> pDate p \<noteq> None"
  by (simp add: SQLGenKeysPartial_def in_set_optional_key del: set_simps)

lemma set_column_Rating:
  "Rating (set_column p k m)
     = (if k = ''rating'' then (case pRating p of None \<Rightarrow> null_int64 | Some v \<Rightarrow> v) else Rating m)"
  by (simp add: set_column_def split: option.splits)

lemma update_row_Rating:
  "Rating (update_row ks p m)
     = (if ''rating'' \<in> set ks then (case pRating p of None \<Rightarrow> null_int64 | Some v \<Rightarrow> v) else Rating m)"
  unfolding update_row_def
  by (induction ks arbitrary: m) (simp_all add: set_column_Rating)

lemma keys_Rating: "''rating'' \<in> set (SQLGenKeysPartial p) \<longleftrightarrow> pRating p \<noteq> None"
  by (simp add: SQLGenKeysPartial_def in_set_optional_key del: set_simps)

lemma set_column_StudioID:
  "StudioID (set_column p k m)
     = (if k = ''studio_id'' then (case pStudioID p of None \<Rightarrow> null_int64 | Some v \<Rightarrow> v) else StudioID m)"
  by (simp add: set_column_def split: option.splits)

lemma update_row_StudioID:
  "StudioID (update_row ks p m)
     = (if ''studio_id'' \<in> set ks then (case pStudioID p of None \<Rightarrow> null_int64 | Some v \<Rightarrow> v) else StudioID m)"
  unfolding update_row_def
  by (induction ks arbitrary: m) (simp_all add: set_column_StudioID)

lemma keys_StudioID: "''studio_id'' \<in> set (SQLGenKeysPartial p) \<longleftrightarrow> pStudioID p \<noteq> None"
  by (simp add: SQLGenKeysPartial_def in_set_optional_key del: set_simps)

lemma set_column_Director:
  "Director (set_column p k m)
     = (if k = ''director'' then (case pDirector p of None \<Rightarrow> null_string | Some v \<Rightarrow> v) else Director m)"
  by (simp add: set_column_def split: option.splits)

lemma update_row_Director:
  "Director (update_row ks p m)
     = (if ''director'' \<in> set ks then (case pDirector p of None \<Rightarrow> null_string | Some v \<Rightarrow> v) else Director m)"
  unfolding update_row_def
  by (induction ks arbitrary: m) (simp_all add: set_column_Director)

lemma keys_Director: "''director'' \<in> set (SQLGenKeysPartial p) \<longleftrightarrow> pDirector p \<noteq> None"
  by (simp add: SQLGenKeysPartial_def in_set_optional_key del: set_simps)

lemma set_column_Synopsis:
  "Synopsis (set_column p k m)
     = (if k = ''synopsis'' then (case pSynopsis p of None \<Rightarrow> null_string | Some v \<Rightarrow> v) else Synopsis m)"
  by (simp add: set_column_def split: option.splits)

lemma update_row_Synopsis:
  "Synopsis (update_row ks p m)
     = (if ''synopsis'' \<in> set ks then (case pSynopsis p of None \<Rightarrow> null_string | Some v \<Rightarrow> v) else Synopsis m)"
  unfolding update_row_def
  by (induction ks arbitrary: m) (simp_all add: set_column_Synopsis)

lemma keys_Synopsis: "''synopsis'' \<in> set (SQLGenKeysPartial p) \<longleftrightarrow> pSynopsis p \<noteq> None"
  by (simp add: SQLGenKeysPartial_def in_set_optional_key del: set_simps)

lemma set_column_URL:
  "URL (set_column p k m)
     = (if k = ''url'' then (case pURL p of None \<Rightarrow> null_string | Some v \<Rightarrow> v) else URL m)"
  by (simp add: set_column_def split: option.splits)

lemma update_row_URL:
  "URL (update_row ks p m)
     = (if ''url'' \<in> set ks then (case pURL p of None \<Rightarrow> null_string | Some v \<Rightarrow> v) else URL m)"
  unfolding update_row_def
  by (induction ks arbitrary: m) (simp_all add: set_column_URL)

lemma keys_URL: "''url'' \<in> set (SQLGenKeysPartial p) \<longleftrightarrow> pURL p \<noteq> None"
  by (simp add: SQLGenKeysPartial_def in_set_optional_key del: set_simps)

subsection \<open>Successful calls\<close>

lemma Find_Inr:
  "Find env i d = Inr r \<Longrightarrow> r = List.find (\<lambda>m. ID m = i) (movies d)"
  by (cases "engine_error env (SelectMovie i) d") (simp_all add: Find_ok Find_error)

lemma Update_success:
  assumes "Update env p tx = (tx', Inr r)"
  shows "tx' = tx\<lparr>movies := map (\<lambda>m. if ID m = pID p
                                     then update_row (SQLGenKeysPartial p) p m else m) (movies tx)\<rparr>"
    and "r = List.find (\<lambda>m. ID m = pID p) (movies tx')"
proof -
  from assms have e: "engine_error env (UpdateMovies (SQLGenKeysPartial p) p) tx = None"
    by (cases "engine_error env (UpdateMovies (SQLGenKeysPartial p) p) tx")
       (simp_all add: Update_def exec_def)
  with assms show 1: "tx' = tx\<lparr>movies := map (\<lambda>m. if ID m = pID p
                                     then update_row (SQLGenKeysPartial p) p m else m) (movies tx)\<rparr>"
    by (simp add: Update_def exec_def)
  from assms e have "Find env (pID p) tx' = Inr r"
    by (auto simp add: Update_def exec_def)
  then show "r = List.find (\<lambda>m. ID m = pID p) (movies tx')" by (rule Find_Inr)
qed

lemma fresh_id_gt: "m \<in> set ms \<Longrightarrow> ID m < fresh_id ms"
  unfolding fresh_id_def by (induction ms) auto

lemma filter_fresh_id: "filter (\<lambda>m. ID m = fresh_id ms) ms = []"
  by (auto simp: filter_empty_conv dest: fresh_id_gt)

lemma Create_success:
  assumes "Create env nm d = (tx, Inr movie)"
  shows "tx = d\<lparr>movies := movies d @ [nm\<lparr>ID := fresh_id (movies d)\<rparr>]\<rparr>"
    and "movie = nm\<lparr>ID := fresh_id (movies d)\<rparr>"
proof -
  from assms have e: "engine_error env (InsertMovie nm) d = None"
    by (cases "engine_error env (InsertMovie nm) d") (simp_all add: Create_def exec_def)
  with assms show 1: "tx = d\<lparr>movies := movies d @ [nm\<lparr>ID := fresh_id (movies d)\<rparr>]\<rparr>"
    by (auto simp add: Create_def exec_def)
  from assms e have g: "tx_Get env (SelectMovie (fresh_id (movies d))) tx = Inr movie"
    by (auto simp add: Create_def exec_def)
  have "movie_rows (SelectMovie (fresh_id (movies d))) tx = [nm\<lparr>ID := fresh_id (movies d)\<rparr>]"
    by (simp add: 1 filter_fresh_id)
  with g show "movie = nm\<lparr>ID := fresh_id (movies d)\<rparr>"
    by (cases "engine_error env (SelectMovie (fresh_id (movies d))) tx")
       (simp_all add: tx_Get_def)
qed

lemma exec_Some_state: "exec env s tx = (tx', Some err) \<Longrightarrow> tx' = tx"
  by (cases "engine_error env s tx") (simp_all add: exec_def)

lemma exec_None_state: "exec env s tx = (tx', None) \<Longrightarrow> tx' = apply_stmt env s tx"
  by (cases "engine_error env s tx") (simp_all add: exec_def)

lemma DestroyMovieImages_success:
  "DestroyMovieImages env i tx = (tx', None) \<Longrightarrow>
   tx' = tx\<lparr>movies_images := filter (\<lambda>r. movie_id r \<noteq> i) (movies_images tx)\<rparr>"
  by (auto simp add: DestroyMovieImages_def dest: exec_None_state)

lemma UpdateMovieImages_success:
  assumes "UpdateMovieImages env i f b tx = (tx', None)"
  shows "tx' = tx\<lparr>movies_images := filter (\<lambda>r. movie_id r \<noteq> i) (movies_images tx)
                    @ [\<lparr>movie_id = i, front_image = f, back_image = b\<rparr>]\<rparr>"
proof (cases "DestroyMovieImages env i tx")
  case (Pair tx1 r)
  with assms have r: "r = None" and 2: "exec env (InsertMoviesImages i f b) tx1 = (tx', None)"
    by (cases r; simp add: UpdateMovieImages_def)+
  from Pair r have "tx1 = tx\<lparr>movies_images := filter (\<lambda>r. movie_id r \<noteq> i) (movies_images tx)\<rparr>"
    by (simp add: DestroyMovieImages_success)
  with exec_None_state [OF 2] show ?thesis by simp
qed

lemma MovieCreate_success:
  assumes "MovieCreate env input d = (d', Inr movie)"
  shows "\<exists>tx. Create env (MovieCreate_newMovie env input (MD5FromString env (cName input))) d
               = (tx, Inr movie) \<and> movies d' = movies tx"
proof -
  let ?nm = "MovieCreate_newMovie env input (MD5FromString env (cName input))"
  obtain tx r where c: "Create env ?nm d = (tx, r)" by (cases "Create env ?nm d")
  from assms c have "r = Inr movie \<and> movies d' = movies tx"
    by (auto simp add: MovieCreate_def Let_def
        split: sum.splits option.splits prod.splits if_splits
        dest!: UpdateMovieImages_success)
  with c show ?thesis by blast
qed

lemma MovieUpdate_images_success:
  assumes "MovieUpdate_images env fi bi fd bd p res tx = (tx', None)"
  shows "movies tx' = movies tx"
    and "fi \<or> bi \<Longrightarrow>
         \<exists>mv f b. res = Some mv
           \<and> (if \<not> fi then GetFrontImage env (pID p) tx else Inr fd) = Inr f
           \<and> (if \<not> bi then GetBackImage env (pID p) tx else Inr bd) = Inr b
           \<and> movies_images tx'
               = (if len f = 0 \<and> len b = 0
                  then filter (\<lambda>r. movie_id r \<noteq> ID mv) (movies_images tx)
                  else filter (\<lambda>r. movie_id r \<noteq> ID mv) (movies_images tx)
                       @ [\<lparr>movie_id = ID mv,
                           front_image = (if f = None \<and> b \<noteq> None
                                          then default_image_data env else f),
                           back_image = b\<rparr>])"
proof -
  from assms show "movies tx' = movies tx"
    by (auto simp add: MovieUpdate_images_def
        split: if_splits sum.splits option.splits
        dest!: UpdateMovieImages_success DestroyMovieImages_success)
next
  assume inc: "fi \<or> bi"
  obtain rf where rf: "(if \<not> fi then GetFrontImage env (pID p) tx else Inr fd) = rf" by simp
  obtain rb where rb: "(if \<not> bi then GetBackImage env (pID p) tx else Inr bd) = rb" by simp
  from assms inc rf obtain f where f: "rf = Inr f"
    by (cases rf) (auto simp add: MovieUpdate_images_def)
  from assms inc rf rb f obtain b where b: "rb = Inr b"
    by (cases rb) (auto simp add: MovieUpdate_images_def)
  from assms inc rf rb f b obtain mv where mv: "res = Some mv"
    by (cases res) (auto simp add: MovieUpdate_images_def)
  from assms inc rf rb f b mv
  have "movies_images tx'
               = (if len f = 0 \<and> len b = 0
                  then filter (\<lambda>r. movie_id r \<noteq> ID mv) (movies_images tx)
                  else filter (\<lambda>r. movie_id r \<noteq> ID mv) (movies_images tx)
                       @ [\<lparr>movie_id = ID mv,
                           front_image = (if f = None \<and> b \<noteq> None
                                          then default_image_data env else f),
                           back_image = b\<rparr>])"
    by (auto simp add: MovieUpdate_images_def
        split: if_splits
        dest!: UpdateMovieImages_success DestroyMovieImages_success)
  with rf rb f b mv
  show "\<exists>mv f b. res = Some mv
           \<and> (if \<not> fi then GetFrontImage env (pID p) tx else Inr fd) = Inr f
           \<and> (if \<not> bi then GetBackImage env (pID p) tx else Inr bd) = Inr b
           \<and> movies_images tx'
               = (if len f = 0 \<and> len b = 0
                  then filter (\<lambda>r. movie_id r \<noteq> ID mv) (movies_images tx)
                  else filter (\<lambda>r. movie_id r \<noteq> ID mv) (movies_images tx)
                       @ [\<lparr>movie_id = ID mv,
                           front_image = (if f = None \<and> b \<noteq> None
                                          then default_image_data env else f),
                           back_image = b\<rparr>])"
    by blast
qed

lemma MovieUpdate_success:
  assumes "MovieUpdate env im input d = (d', Inr res)"
  shows "\<exists>fd bd tx.
           decode_image env (uFrontImage input) = Inr fd
           \<and> decode_image env (uBackImage input) = Inr bd
           \<and> Update env (MovieUpdate_patch env \<lparr>inputMap = im\<rparr> input) d = (tx, Inr res)
           \<and> MovieUpdate_images env (''front_image'' \<in> im) (''back_image'' \<in> im) fd bd
                (MovieUpdate_patch env \<lparr>inputMap = im\<rparr> input) res tx = (d', None)"
proof -
  let ?p = "MovieUpdate_patch env \<lparr>inputMap = im\<rparr> input"
  obtain rf where rf: "decode_image env (uFrontImage input) = rf" by simp
  obtain rb where rb: "decode_image env (uBackImage input) = rb" by simp
  from assms rf obtain fd where fd: "rf = Inr fd"
    by (cases rf) (auto simp add: MovieUpdate_def Let_def)
  from assms rf rb fd obtain bd where bd: "rb = Inr bd"
    by (cases rb) (auto simp add: MovieUpdate_def Let_def)
  obtain tx ru where u: "Update env ?p d = (tx, ru)" by (cases "Update env ?p d")
  from assms rf rb fd bd u have ru: "ru = Inr res"
    by (cases ru)
       (auto simp add: MovieUpdate_def Let_def hasField_def split: prod.splits option.splits)
  obtain tx' ri where i:
    "MovieUpdate_images env (''front_image'' \<in> im) (''back_image'' \<in> im) fd bd ?p res tx
       = (tx', ri)"
    by (cases "MovieUpdate_images env (''front_image'' \<in> im) (''back_image'' \<in> im) fd bd
                 ?p res tx")
  from assms rf rb fd bd u ru i have "ri = None \<and> tx' = d'"
    by (cases ri) (auto simp add: MovieUpdate_def Let_def hasField_def split: option.splits)
  with rf rb fd bd u ru i show ?thesis by blast
qed

lemma map_ID_update_rows:
  "map ID (map (\<lambda>m. if ID m = j then update_row ks p m else m) ms) = map ID ms"
  by (induction ms) (simp_all add: update_row_ID)

lemma MovieUpdate_rows:
  assumes "MovieUpdate env im update d = (d'', Inr res)"
  shows "movies d'' = map (\<lambda>m. if ID m = Atoi env (uID update)
                            then update_row
                                   (SQLGenKeysPartial (MovieUpdate_patch env \<lparr>inputMap = im\<rparr> update))
                                   (MovieUpdate_patch env \<lparr>inputMap = im\<rparr> update) m
                            else m) (movies d)"
    and "res = List.find (\<lambda>m. ID m = Atoi env (uID update)) (movies d'')"
proof -
  let ?p = "MovieUpdate_patch env \<lparr>inputMap = im\<rparr> update"
  have pid: "pID ?p = Atoi env (uID update)" by (simp add: MovieUpdate_patch_def)
  from MovieUpdate_success [OF assms] obtain fd bd tx where
    u: "Update env ?p d = (tx, Inr res)"
    and i: "MovieUpdate_images env (''front_image'' \<in> im) (''back_image'' \<in> im) fd bd ?p res tx
              = (d'', None)"
    by blast
  from MovieUpdate_images_success(1) [OF i] have same: "movies d'' = movies tx" .
  with Update_success(1) [OF u] pid
  show "movies d'' = map (\<lambda>m. if ID m = Atoi env (uID update)
                            then update_row (SQLGenKeysPartial ?p) ?p m else m) (movies d)"
    by simp
  from Update_success(2) [OF u] same pid
  show "res = List.find (\<lambda>m. ID m = Atoi env (uID update)) (movies d'')" by simp
qed

lemma MovieCreate_no_images:
  assumes "\<forall>s t. engine_error env s t = None"
    and "cFrontImage input = None" and "cBackImage input = None"
  shows "\<exists>dn mn. MovieCreate env input d = (dn, Inr mn)"
  using assms
  by (simp add: MovieCreate_def Let_def decode_image_def len_def Create_def exec_def
      tx_Get_def tx_Commit_def filter_fresh_id)

lemma MovieUpdate_no_images:
  assumes "\<forall>s t. engine_error env s t = None"
    and "''front_image'' \<notin> im" and "''back_image'' \<notin> im"
    and "uFrontImage update = None" and "uBackImage update = None"
  shows "\<exists>dn rn. MovieUpdate env im update d = (dn, Inr rn)"
  using assms
  by (simp add: MovieUpdate_def Let_def decode_image_def hasField_def Update_def exec_def
      Find_ok MovieUpdate_images_def tx_Commit_def del: apply_stmt.simps)

text \<open>
  C9. A movie that \<^verbatim>\<open>MovieCreate\<close> has stored is the one row added to the table and
  carries the hash of its name as its checksum. When \<^verbatim>\<open>MovieUpdate\<close> succeeds on a
  payload that supplies a name, the SET-list of its UPDATE names both the name and the
  checksum, no row is added or removed, and when the movie was stored the update
  returns its record, which is stored with the new name and the hash of the new name.
  With an engine that refuses nothing and no image in the request, both calls succeed.
\<close>

theorem checksum_follows_name:
  "(MovieCreate env input d = (d', Inr movie) \<longrightarrow>
      movies d' = movies d @ [movie]
      \<and> movie \<in> set (movies d')
      \<and> Name movie = \<lparr>Value = cName input, Valid = True\<rparr>
      \<and> Checksum movie = MD5FromString env (cName input))
   \<and> ((\<forall>s t. engine_error env s t = None)
      \<and> cFrontImage input = None \<and> cBackImage input = None \<longrightarrow>
      (\<exists>dn mn. MovieCreate env input d = (dn, Inr mn)))
   \<and> (MovieUpdate env im update d = (d'', Inr res) \<and> uName update = Some n \<longrightarrow>
      ''name'' \<in> set (SQLGenKeysPartial (MovieUpdate_patch env \<lparr>inputMap = im\<rparr> update))
      \<and> ''checksum'' \<in> set (SQLGenKeysPartial (MovieUpdate_patch env \<lparr>inputMap = im\<rparr> update))
      \<and> map ID (movies d'') = map ID (movies d)
      \<and> (\<forall>m\<in>set (movies d''). ID m = Atoi env (uID update) \<longrightarrow>
            Name m = \<lparr>Value = n, Valid = True\<rparr> \<and> Checksum m = MD5FromString env n)
      \<and> (\<forall>m. res = Some m \<longrightarrow>
            Name m = \<lparr>Value = n, Valid = True\<rparr> \<and> Checksum m = MD5FromString env n)
      \<and> ((\<exists>m0\<in>set (movies d). ID m0 = Atoi env (uID update)) \<longrightarrow>
            (\<exists>m. res = Some m \<and> m \<in> set (movies d'') \<and> ID m = Atoi env (uID update)
               \<and> Name m = \<lparr>Value = n, Valid = True\<rparr>
               \<and> Checksum m = MD5FromString env n)))
   \<and> ((\<forall>s t. engine_error env s t = None)
      \<and> ''front_image'' \<notin> im \<and> ''back_image'' \<notin> im
      \<and> uFrontImage update = None \<and> uBackImage update = None \<longrightarrow>
      (\<exists>dn rn. MovieUpdate env im update d = (dn, Inr rn)))"
proof (intro conjI impI)
  assume a: "MovieCreate env input d = (d', Inr movie)"
  let ?nm = "MovieCreate_newMovie env input (MD5FromString env (cName input))"
  from MovieCreate_success [OF a] obtain tx where
    c: "Create env ?nm d = (tx, Inr movie)" and m: "movies d' = movies tx" by blast
  from Create_success [OF c] m show "movies d' = movies d @ [movie]" by simp
  then show "movie \<in> set (movies d')" by simp
  from Create_success(2) [OF c] show "Name movie = \<lparr>Value = cName input, Valid = True\<rparr>"
    by (simp add: MovieCreate_newMovie_def)
  from Create_success(2) [OF c] show "Checksum movie = MD5FromString env (cName input)"
    by (simp add: MovieCreate_newMovie_def)
next
  assume "(\<forall>s t. engine_error env s t = None)
      \<and> cFrontImage input = None \<and> cBackImage input = None"
  then show "\<exists>dn mn. MovieCreate env input d = (dn, Inr mn)"
    using MovieCreate_no_images [of env input d] by blast
next
  assume "(\<forall>s t. engine_error env s t = None)
      \<and> ''front_image'' \<notin> im \<and> ''back_image'' \<notin> im
      \<and> uFrontImage update = None \<and> uBackImage update = None"
  then show "\<exists>dn rn. MovieUpdate env im update d = (dn, Inr rn)"
    using MovieUpdate_no_images [of env im update d] by blast
next
  assume a: "MovieUpdate env im update d = (d'', Inr res) \<and> uName update = Some n"
  let ?p = "MovieUpdate_patch env \<lparr>inputMap = im\<rparr> update"
  let ?ks = "SQLGenKeysPartial ?p"
  let ?i = "Atoi env (uID update)"
  from a have pn: "pName ?p = Some \<lparr>Value = n, Valid = True\<rparr>"
    and pc: "pChecksum ?p = Some (MD5FromString env n)"
    by (simp_all add: MovieUpdate_patch_def)
  from pn show kn: "''name'' \<in> set ?ks" by (simp add: keys_Name)
  from pc show kc: "''checksum'' \<in> set ?ks" by (simp add: keys_Checksum)
  from a have ok: "MovieUpdate env im update d = (d'', Inr res)" by simp
  note ms = MovieUpdate_rows(1) [OF ok] and rs = MovieUpdate_rows(2) [OF ok]
  show ids: "map ID (movies d'') = map ID (movies d)"
    unfolding ms by (rule map_ID_update_rows)
  have row: "\<And>m. Name (update_row ?ks ?p m) = \<lparr>Value = n, Valid = True\<rparr>
               \<and> Checksum (update_row ?ks ?p m) = MD5FromString env n"
    using kn kc pn pc by (simp add: update_row_Name update_row_Checksum)
  show stored: "\<forall>m\<in>set (movies d''). ID m = ?i \<longrightarrow>
            Name m = \<lparr>Value = n, Valid = True\<rparr> \<and> Checksum m = MD5FromString env n"
  proof (intro ballI impI)
    fix m assume m: "m \<in> set (movies d'')" and mid: "ID m = ?i"
    from m ms obtain m0 where m0: "m0 \<in> set (movies d)"
      and eq: "m = (if ID m0 = ?i then update_row ?ks ?p m0 else m0)" by auto
    show "Name m = \<lparr>Value = n, Valid = True\<rparr> \<and> Checksum m = MD5FromString env n"
    proof (cases "ID m0 = ?i")
      case True
      with eq row show ?thesis by simp
    next
      case False
      with eq mid show ?thesis by simp
    qed
  qed
  show returned: "\<forall>m. res = Some m \<longrightarrow>
            Name m = \<lparr>Value = n, Valid = True\<rparr> \<and> Checksum m = MD5FromString env n"
  proof (intro allI impI)
    fix m assume "res = Some m"
    with rs have "List.find (\<lambda>m. ID m = ?i) (movies d'') = Some m" by simp
    from find_Some_mem [OF this] stored
    show "Name m = \<lparr>Value = n, Valid = True\<rparr> \<and> Checksum m = MD5FromString env n"
      by simp
  qed
  show "\<exists>m. res = Some m \<and> m \<in> set (movies d'') \<and> ID m = ?i
               \<and> Name m = \<lparr>Value = n, Valid = True\<rparr>
               \<and> Checksum m = MD5FromString env n"
    if "\<exists>m0\<in>set (movies d). ID m0 = ?i"
  proof -
    from that obtain m0 where m0: "m0 \<in> set (movies d)" "ID m0 = ?i" by blast
    let ?m1 = "if ID m0 = ?i then update_row ?ks ?p m0 else m0"
    from m0 ms have "?m1 \<in> set (movies d'')" by auto
    moreover from m0 have "ID ?m1 = ?i" by (simp add: update_row_ID)
    ultimately obtain m where f: "List.find (\<lambda>m. ID m = ?i) (movies d'') = Some m"
      using find_row_exists [of ?m1 "movies d''" "\<lambda>m. ID m = ?i"] by auto
    with rs have r: "res = Some m" by simp
    from find_Some_mem [OF f] have mem: "m \<in> set (movies d'')" and mid: "ID m = ?i" by simp_all
    with stored have "Name m = \<lparr>Value = n, Valid = True\<rparr> \<and> Checksum m = MD5FromString env n"
      by simp
    with r mem mid show ?thesis by simp
  qed
qed

subsection \<open>Presence and null\<close>

lemma updated_row_origin:
  assumes "ms' = map (\<lambda>m. if ID m = j then update_row ks p m else m) ms"
    and "m' \<in> set ms'" and "ID m' = j"
  shows "\<exists>m0\<in>set ms. m' = update_row ks p m0"
proof -
  from assms(1,2) obtain m0 where m0: "m0 \<in> set ms"
    and eq: "m' = (if ID m0 = j then update_row ks p m0 else m0)" by auto
  from eq assms(3) have "ID m0 = j" by (simp add: update_row_ID split: if_splits)
  with eq m0 show ?thesis by auto
qed

lemma column_Name:
  assumes "ms' = map (\<lambda>m. if ID m = pID p then update_row (SQLGenKeysPartial p) p m else m) ms"
  shows "pName p = None \<Longrightarrow>
           ''name'' \<notin> set (SQLGenKeysPartial p) \<and> map Name ms' = map Name ms"
    and "pName p = Some v \<Longrightarrow>
           ''name'' \<in> set (SQLGenKeysPartial p)
           \<and> (\<forall>m\<in>set ms'. ID m = pID p \<longrightarrow> Name m = v)"
proof -
  assume n: "pName p = None"
  then have k: "''name'' \<notin> set (SQLGenKeysPartial p)" by (simp add: keys_Name)
  then have "map Name ms' = map Name ms"
    unfolding assms by (induction ms) (simp_all add: update_row_Name)
  with k show "''name'' \<notin> set (SQLGenKeysPartial p) \<and> map Name ms' = map Name ms" by simp
next
  assume s: "pName p = Some v"
  then have k: "''name'' \<in> set (SQLGenKeysPartial p)" by (simp add: keys_Name)
  have "\<forall>m\<in>set ms'. ID m = pID p \<longrightarrow> Name m = v"
  proof (intro ballI impI)
    fix m assume "m \<in> set ms'" "ID m = pID p"
    with updated_row_origin [OF assms] obtain m0 where
      "m = update_row (SQLGenKeysPartial p) p m0" by blast
    with k s show "Name m = v" by (simp add: update_row_Name)
  qed
  with k show "''name'' \<in> set (SQLGenKeysPartial p)
           \<and> (\<forall>m\<in>set ms'. ID m = pID p \<longrightarrow> Name m = v)" by simp
qed

lemma column_Checksum:
  assumes "ms' = map (\<lambda>m. if ID m = pID p then update_row (SQLGenKeysPartial p) p m else m) ms"
  shows "pChecksum p = None \<Longrightarrow>
           ''checksum'' \<notin> set (SQLGenKeysPartial p) \<and> map Checksum ms' = map Checksum ms"
    and "pChecksum p = Some v \<Longrightarrow>
           ''checksum'' \<in> set (SQLGenKeysPartial p)
           \<and> (\<forall>m\<in>set ms'. ID m = pID p \<longrightarrow> Checksum m = v)"
proof -
  assume n: "pChecksum p = None"
  then have k: "''checksum'' \<notin> set (SQLGenKeysPartial p)" by (simp add: keys_Checksum)
  then have "map Checksum ms' = map Checksum ms"
    unfolding assms by (induction ms) (simp_all add: update_row_Checksum)
  with k show "''checksum'' \<notin> set (SQLGenKeysPartial p) \<and> map Checksum ms' = map Checksum ms" by simp
next
  assume s: "pChecksum p = Some v"
  then have k: "''checksum'' \<in> set (SQLGenKeysPartial p)" by (simp add: keys_Checksum)
  have "\<forall>m\<in>set ms'. ID m = pID p \<longrightarrow> Checksum m = v"
  proof (intro ballI impI)
    fix m assume "m \<in> set ms'" "ID m = pID p"
    with updated_row_origin [OF assms] obtain m0 where
      "m = update_row (SQLGenKeysPartial p) p m0" by blast
    with k s show "Checksum m = v" by (simp add: update_row_Checksum)
  qed
  with k show "''checksum'' \<in> set (SQLGenKeysPartial p)
           \<and> (\<forall>m\<in>set ms'. ID m = pID p \<longrightarrow> Checksum m = v)" by simp
qed

lemma column_Aliases:
  assumes "ms' = map (\<lambda>m. if ID m = pID p then update_row (SQLGenKeysPartial p) p m else m) ms"
  shows "pAliases p = None \<Longrightarrow>
           ''aliases'' \<notin> set (SQLGenKeysPartial p) \<and> map Aliases ms' = map Aliases ms"
    and "pAliases p = Some v \<Longrightarrow>
           ''aliases'' \<in> set (SQLGenKeysPartial p)
           \<and> (\<forall>m\<in>set ms'. ID m = pID p \<longrightarrow> Aliases m = v)"
proof -
  assume n: "pAliases p = None"
  then have k: "''aliases'' \<notin> set (SQLGenKeysPartial p)" by (simp add: keys_Aliases)
  then have "map Aliases ms' = map Aliases ms"
    unfolding assms by (induction ms) (simp_all add: update_row_Aliases)
  with k show "''aliases'' \<notin> set (SQLGenKeysPartial p) \<and> map Aliases ms' = map Aliases ms" by simp
next
  assume s: "pAliases p = Some v"
  then have k: "''aliases'' \<in> set (SQLGenKeysPartial p)" by (simp add: keys_Aliases)
  have "\<forall>m\<in>set ms'. ID m = pID p \<longrightarrow> Aliases m = v"
  proof (intro ballI impI)
    fix m assume "m \<in> set ms'" "ID m = pID p"
    with updated_row_origin [OF assms] obtain m0 where
      "m = update_row (SQLGenKeysPartial p) p m0" by blast
    with k s show "Aliases m = v" by (simp add: update_row_Aliases)
  qed
  with k show "''aliases'' \<in> set (SQLGenKeysPartial p)
           \<and> (\<forall>m\<in>set ms'. ID m = pID p \<longrightarrow> Aliases m = v)" by simp
qed

lemma column_Duration:
  assumes "ms' = map (\<lambda>m. if ID m = pID p then update_row (SQLGenKeysPartial p) p m else m) ms"
  shows "pDuration p = None \<Longrightarrow>
           ''duration'' \<notin> set (SQLGenKeysPartial p) \<and> map Duration ms' = map Duration ms"
    and "pDuration p = Some v \<Longrightarrow>
           ''duration'' \<in> set (SQLGenKeysPartial p)
           \<and> (\<forall>m\<in>set ms'. ID m = pID p \<longrightarrow> Duration m = v)"
proof -
  assume n: "pDuration p = None"
  then have k: "''duration'' \<notin> set (SQLGenKeysPartial p)" by (simp add: keys_Duration)
  then have "map Duration ms' = map Duration ms"
    unfolding assms by (induction ms) (simp_all add: update_row_Duration)
  with k show "''duration'' \<notin> set (SQLGenKeysPartial p) \<and> map Duration ms' = map Duration ms" by simp
next
  assume s: "pDuration p = Some v"
  then have k: "''duration'' \<in> set (SQLGenKeysPartial p)" by (simp add: keys_Duration)
  have "\<forall>m\<in>set ms'. ID m = pID p \<longrightarrow> Duration m = v"
  proof (intro ballI impI)
    fix m assume "m \<in> set ms'" "ID m = pID p"
    with updated_row_origin [OF assms] obtain m0 where
      "m = update_row (SQLGenKeysPartial p) p m0" by blast
    with k s show "Duration m = v" by (simp add: update_row_Duration)
  qed
  with k show "''duration'' \<in> set (SQLGenKeysPartial p)
           \<and> (\<forall>m\<in>set ms'. ID m = pID p \<longrightarrow> Duration m = v)" by simp
qed

lemma column_Date:
  assumes "ms' = map (\<lambda>m. if ID m = pID p then update_row (SQLGenKeysPartial p) p m else m) ms"
  shows "pDate p = None \<Longrightarrow>
           ''date'' \<notin> set (SQLGenKeysPartial p) \<and> map Date ms' = map Date ms"
    and "pDate p = Some v \<Longrightarrow>
           ''date'' \<in> set (SQLGenKeysPartial p)
           \<and> (\<forall>m\<in>set ms'. ID m = pID p \<longrightarrow> Date m = v)"
proof -
  assume n: "pDate p = None"
  then have k: "''date'' \<notin> set (SQLGenKeysPartial p)" by (simp add: keys_Date)
  then have "map Date ms' = map Date ms"
    unfolding assms by (induction ms) (simp_all add: update_row_Date)
  with k show "''date'' \<notin> set (SQLGenKeysPartial p) \<and> map Date ms' = map Date ms" by simp
next
  assume s: "pDate p = Some v"
  then have k: "''date'' \<in> set (SQLGenKeysPartial p)" by (simp add: keys_Date)
  have "\<forall>m\<in>set ms'. ID m = pID p \<longrightarrow> Date m = v"
  proof (intro ballI impI)
    fix m assume "m \<in> set ms'" "ID m = pID p"
    with updated_row_origin [OF assms] obtain m0 where
      "m = update_row (SQLGenKeysPartial p) p m0" by blast
    with k s show "Date m = v" by (simp add: update_row_Date)
  qed
  with k show "''date'' \<in> set (SQLGenKeysPartial p)
           \<and> (\<forall>m\<in>set ms'. ID m = pID p \<longrightarrow> Date m = v)" by simp
qed

lemma column_Rating:
  assumes "ms' = map (\<lambda>m. if ID m = pID p then update_row (SQLGenKeysPartial p) p m else m) ms"
  shows "pRating p = None \<Longrightarrow>
           ''rating'' \<notin> set (SQLGenKeysPartial p) \<and> map Rating ms' = map Rating ms"
    and "pRating p = Some v \<Longrightarrow>
           ''rating'' \<in> set (SQLGenKeysPartial p)
           \<and> (\<forall>m\<in>set ms'. ID m = pID p \<longrightarrow> Rating m = v)"
proof -
  assume n: "pRating p = None"
  then have k: "''rating'' \<notin> set (SQLGenKeysPartial p)" by (simp add: keys_Rating)
  then have "map Rating ms' = map Rating ms"
    unfolding assms by (induction ms) (simp_all add: update_row_Rating)
  with k show "''rating'' \<notin> set (SQLGenKeysPartial p) \<and> map Rating ms' = map Rating ms" by simp
next
  assume s: "pRating p = Some v"
  then have k: "''rating'' \<in> set (SQLGenKeysPartial p)" by (simp add: keys_Rating)
  have "\<forall>m\<in>set ms'. ID m = pID p \<longrightarrow> Rating m = v"
  proof (intro ballI impI)
    fix m assume "m \<in> set ms'" "ID m = pID p"
    with updated_row_origin [OF assms] obtain m0 where
      "m = update_row (SQLGenKeysPartial p) p m0" by blast
    with k s show "Rating m = v" by (simp add: update_row_Rating)
  qed
  with k show "''rating'' \<in> set (SQLGenKeysPartial p)
           \<and> (\<forall>m\<in>set ms'. ID m = pID p \<longrightarrow> Rating m = v)" by simp
qed

lemma column_StudioID:
  assumes "ms' = map (\<lambda>m. if ID m = pID p then update_row (SQLGenKeysPartial p) p m else m) ms"
  shows "pStudioID p = None \<Longrightarrow>
           ''studio_id'' \<notin> set (SQLGenKeysPartial p) \<and> map StudioID ms' = map StudioID ms"
    and "pStudioID p = Some v \<Longrightarrow>
           ''studio_id'' \<in> set (SQLGenKeysPartial p)
           \<and> (\<forall>m\<in>set ms'. ID m = pID p \<longrightarrow> StudioID m = v)"
proof -
  assume n: "pStudioID p = None"
  then have k: "''studio_id'' \<notin> set (SQLGenKeysPartial p)" by (simp add: keys_StudioID)
  then have "map StudioID ms' = map StudioID ms"
    unfolding assms by (induction ms) (simp_all add: update_row_StudioID)
  with k show "''studio_id'' \<notin> set (SQLGenKeysPartial p) \<and> map StudioID ms' = map StudioID ms" by simp
next
  assume s: "pStudioID p = Some v"
  then have k: "''studio_id'' \<in> set (SQLGenKeysPartial p)" by (simp add: keys_StudioID)
  have "\<forall>m\<in>set ms'. ID m = pID p \<longrightarrow> StudioID m = v"
  proof (intro ballI impI)
    fix m assume "m \<in> set ms'" "ID m = pID p"
    with updated_row_origin [OF assms] obtain m0 where
      "m = update_row (SQLGenKeysPartial p) p m0" by blast
    with k s show "StudioID m = v" by (simp add: update_row_StudioID)
  qed
  with k show "''studio_id'' \<in> set (SQLGenKeysPartial p)
           \<and> (\<forall>m\<in>set ms'. ID m = pID p \<longrightarrow> StudioID m = v)" by simp
qed

lemma column_Director:
  assumes "ms' = map (\<lambda>m. if ID m = pID p then update_row (SQLGenKeysPartial p) p m else m) ms"
  shows "pDirector p = None \<Longrightarrow>
           ''director'' \<notin> set (SQLGenKeysPartial p) \<and> map Director ms' = map Director ms"
    and "pDirector p = Some v \<Longrightarrow>
           ''director'' \<in> set (SQLGenKeysPartial p)
           \<and> (\<forall>m\<in>set ms'. ID m = pID p \<longrightarrow> Director m = v)"
proof -
  assume n: "pDirector p = None"
  then have k: "''director'' \<notin> set (SQLGenKeysPartial p)" by (simp add: keys_Director)
  then have "map Director ms' = map Director ms"
    unfolding assms by (induction ms) (simp_all add: update_row_Director)
  with k show "''director'' \<notin> set (SQLGenKeysPartial p) \<and> map Director ms' = map Director ms" by simp
next
  assume s: "pDirector p = Some v"
  then have k: "''director'' \<in> set (SQLGenKeysPartial p)" by (simp add: keys_Director)
  have "\<forall>m\<in>set ms'. ID m = pID p \<longrightarrow> Director m = v"
  proof (intro ballI impI)
    fix m assume "m \<in> set ms'" "ID m = pID p"
    with updated_row_origin [OF assms] obtain m0 where
      "m = update_row (SQLGenKeysPartial p) p m0" by blast
    with k s show "Director m = v" by (simp add: update_row_Director)
  qed
  with k show "''director'' \<in> set (SQLGenKeysPartial p)
           \<and> (\<forall>m\<in>set ms'. ID m = pID p \<longrightarrow> Director m = v)" by simp
qed

lemma column_Synopsis:
  assumes "ms' = map (\<lambda>m. if ID m = pID p then update_row (SQLGenKeysPartial p) p m else m) ms"
  shows "pSynopsis p = None \<Longrightarrow>
           ''synopsis'' \<notin> set (SQLGenKeysPartial p) \<and> map Synopsis ms' = map Synopsis ms"
    and "pSynopsis p = Some v \<Longrightarrow>
           ''synopsis'' \<in> set (SQLGenKeysPartial p)
           \<and> (\<forall>m\<in>set ms'. ID m = pID p \<longrightarrow> Synopsis m = v)"
proof -
  assume n: "pSynopsis p = None"
  then have k: "''synopsis'' \<notin> set (SQLGenKeysPartial p)" by (simp add: keys_Synopsis)
  then have "map Synopsis ms' = map Synopsis ms"
    unfolding assms by (induction ms) (simp_all add: update_row_Synopsis)
  with k show "''synopsis'' \<notin> set (SQLGenKeysPartial p) \<and> map Synopsis ms' = map Synopsis ms" by simp
next
  assume s: "pSynopsis p = Some v"
  then have k: "''synopsis'' \<in> set (SQLGenKeysPartial p)" by (simp add: keys_Synopsis)
  have "\<forall>m\<in>set ms'. ID m = pID p \<longrightarrow> Synopsis m = v"
  proof (intro ballI impI)
    fix m assume "m \<in> set ms'" "ID m = pID p"
    with updated_row_origin [OF assms] obtain m0 where
      "m = update_row (SQLGenKeysPartial p) p m0" by blast
    with k s show "Synopsis m = v" by (simp add: update_row_Synopsis)
  qed
  with k show "''synopsis'' \<in> set (SQLGenKeysPartial p)
           \<and> (\<forall>m\<in>set ms'. ID m = pID p \<longrightarrow> Synopsis m = v)" by simp
qed

lemma column_URL:
  assumes "ms' = map (\<lambda>m. if ID m = pID p then update_row (SQLGenKeysPartial p) p m else m) ms"
  shows "pURL p = None \<Longrightarrow>
           ''url'' \<notin> set (SQLGenKeysPartial p) \<and> map URL ms' = map URL ms"
    and "pURL p = Some v \<Longrightarrow>
           ''url'' \<in> set (SQLGenKeysPartial p)
           \<and> (\<forall>m\<in>set ms'. ID m = pID p \<longrightarrow> URL m = v)"
proof -
  assume n: "pURL p = None"
  then have k: "''url'' \<notin> set (SQLGenKeysPartial p)" by (simp add: keys_URL)
  then have "map URL ms' = map URL ms"
    unfolding assms by (induction ms) (simp_all add: update_row_URL)
  with k show "''url'' \<notin> set (SQLGenKeysPartial p) \<and> map URL ms' = map URL ms" by simp
next
  assume s: "pURL p = Some v"
  then have k: "''url'' \<in> set (SQLGenKeysPartial p)" by (simp add: keys_URL)
  have "\<forall>m\<in>set ms'. ID m = pID p \<longrightarrow> URL m = v"
  proof (intro ballI impI)
    fix m assume "m \<in> set ms'" "ID m = pID p"
    with updated_row_origin [OF assms] obtain m0 where
      "m = update_row (SQLGenKeysPartial p) p m0" by blast
    with k s show "URL m = v" by (simp add: update_row_URL)
  qed
  with k show "''url'' \<in> set (SQLGenKeysPartial p)
           \<and> (\<forall>m\<in>set ms'. ID m = pID p \<longrightarrow> URL m = v)" by simp
qed

text \<open>
  C1, amended. Let the patch be the one \<^verbatim>\<open>MovieUpdate\<close> builds from a payload and its
  presence set, and let \<^verbatim>\<open>Update\<close> succeed on it. For each of the fields aliases,
  duration, date, rating, studio_id, director, synopsis and url: when the field is absent
  from the presence set its key is not in the SET-list and its column is unchanged in
  every row; when it is present its key is in the SET-list and its column in the row of
  the movie holds the value given, NULL when the value is an explicit null. The name is
  not governed by the presence set: when the payload gives no name (absent or null),
  neither the name nor the checksum is in the SET-list and both columns are unchanged.
\<close>

theorem presence_vs_null:
  assumes p: "p = MovieUpdate_patch env \<lparr>inputMap = im\<rparr> input"
    and u: "Update env p tx = (tx', Inr res)"
  shows "(''aliases'' \<notin> im \<longrightarrow>
        ''aliases'' \<notin> set (SQLGenKeysPartial p) \<and> map Aliases (movies tx') = map Aliases (movies tx))
   \<and> (''aliases'' \<in> im \<longrightarrow>
        ''aliases'' \<in> set (SQLGenKeysPartial p)
        \<and> (\<forall>m\<in>set (movies tx'). ID m = pID p \<longrightarrow>
              Aliases m = (case uAliases input of None \<Rightarrow> null_string | Some s \<Rightarrow> \<lparr>Value = s, Valid = True\<rparr>)))
   \<and> (''duration'' \<notin> im \<longrightarrow>
        ''duration'' \<notin> set (SQLGenKeysPartial p) \<and> map Duration (movies tx') = map Duration (movies tx))
   \<and> (''duration'' \<in> im \<longrightarrow>
        ''duration'' \<in> set (SQLGenKeysPartial p)
        \<and> (\<forall>m\<in>set (movies tx'). ID m = pID p \<longrightarrow>
              Duration m = (case uDuration input of None \<Rightarrow> null_int64 | Some n \<Rightarrow> \<lparr>Value = n, Valid = True\<rparr>)))
   \<and> (''date'' \<notin> im \<longrightarrow>
        ''date'' \<notin> set (SQLGenKeysPartial p) \<and> map Date (movies tx') = map Date (movies tx))
   \<and> (''date'' \<in> im \<longrightarrow>
        ''date'' \<in> set (SQLGenKeysPartial p)
        \<and> (\<forall>m\<in>set (movies tx'). ID m = pID p \<longrightarrow>
              Date m = (case uDate input of None \<Rightarrow> null_string | Some s \<Rightarrow> \<lparr>Value = s, Valid = True\<rparr>)))
   \<and> (''rating'' \<notin> im \<longrightarrow>
        ''rating'' \<notin> set (SQLGenKeysPartial p) \<and> map Rating (movies tx') = map Rating (movies tx))
   \<and> (''rating'' \<in> im \<longrightarrow>
        ''rating'' \<in> set (SQLGenKeysPartial p)
        \<and> (\<forall>m\<in>set (movies tx'). ID m = pID p \<longrightarrow>
              Rating m = (case uRating input of None \<Rightarrow> null_int64 | Some n \<Rightarrow> \<lparr>Value = n, Valid = True\<rparr>)))
   \<and> (''studio_id'' \<notin> im \<longrightarrow>
        ''studio_id'' \<notin> set (SQLGenKeysPartial p) \<and> map StudioID (movies tx') = map StudioID (movies tx))
   \<and> (''studio_id'' \<in> im \<longrightarrow>
        ''studio_id'' \<in> set (SQLGenKeysPartial p)
        \<and> (\<forall>m\<in>set (movies tx'). ID m = pID p \<longrightarrow>
              StudioID m = (case uStudioID input of None \<Rightarrow> null_int64 | Some s \<Rightarrow> \<lparr>Value = ParseInt env s, Valid = True\<rparr>)))
   \<and> (''director'' \<notin> im \<longrightarrow>
        ''director'' \<notin> set (SQLGenKeysPartial p) \<and> map Director (movies tx') = map Director (movies tx))
   \<and> (''director'' \<in> im \<longrightarrow>
        ''director'' \<in> set (SQLGenKeysPartial p)
        \<and> (\<forall>m\<in>set (movies tx'). ID m = pID p \<longrightarrow>
              Director m = (case uDirector input of None \<Rightarrow> null_string | Some s \<Rightarrow> \<lparr>Value = s, Valid = True\<rparr>)))
   \<and> (''synopsis'' \<notin> im \<longrightarrow>
        ''synopsis'' \<notin> set (SQLGenKeysPartial p) \<and> map Synopsis (movies tx') = map Synopsis (movies tx))
   \<and> (''synopsis'' \<in> im \<longrightarrow>
        ''synopsis'' \<in> set (SQLGenKeysPartial p)
        \<and> (\<forall>m\<in>set (movies tx'). ID m = pID p \<longrightarrow>
              Synopsis m = (case uSynopsis input of None \<Rightarrow> null_string | Some s \<Rightarrow> \<lparr>Value = s, Valid = True\<rparr>)))
   \<and> (''url'' \<notin> im \<longrightarrow>
        ''url'' \<notin> set (SQLGenKeysPartial p) \<and> map URL (movies tx') = map URL (movies tx))
   \<and> (''url'' \<in> im \<longrightarrow>
        ''url'' \<in> set (SQLGenKeysPartial p)
        \<and> (\<forall>m\<in>set (movies tx'). ID m = pID p \<longrightarrow>
              URL m = (case uURL input of None \<Rightarrow> null_string | Some s \<Rightarrow> \<lparr>Value = s, Valid = True\<rparr>)))
   \<and> (uName input = None \<longrightarrow>
        ''name'' \<notin> set (SQLGenKeysPartial p) \<and> ''checksum'' \<notin> set (SQLGenKeysPartial p)
        \<and> map Name (movies tx') = map Name (movies tx)
        \<and> map Checksum (movies tx') = map Checksum (movies tx))"
proof -
  from Update_success(1) [OF u]
  have ms: "movies tx' = map (\<lambda>m. if ID m = pID p
                then update_row (SQLGenKeysPartial p) p m else m) (movies tx)"
    by simp
  have f_Aliases: "(''aliases'' \<notin> im \<longrightarrow>
        ''aliases'' \<notin> set (SQLGenKeysPartial p) \<and> map Aliases (movies tx') = map Aliases (movies tx))
   \<and> (''aliases'' \<in> im \<longrightarrow>
        ''aliases'' \<in> set (SQLGenKeysPartial p)
        \<and> (\<forall>m\<in>set (movies tx'). ID m = pID p \<longrightarrow>
              Aliases m = (case uAliases input of None \<Rightarrow> null_string | Some s \<Rightarrow> \<lparr>Value = s, Valid = True\<rparr>)))"
  proof (cases "''aliases'' \<in> im")
    case True
    then have "pAliases p = Some (case uAliases input of None \<Rightarrow> null_string | Some s \<Rightarrow> \<lparr>Value = s, Valid = True\<rparr>)"
      by (simp add: p MovieUpdate_patch_def nullString_def hasField_def)
    from column_Aliases(2) [OF ms this] True show ?thesis by simp
  next
    case False
    then have "pAliases p = None"
      by (simp add: p MovieUpdate_patch_def nullString_def hasField_def)
    from column_Aliases(1) [OF ms this] False show ?thesis by simp
  qed
  have f_Duration: "(''duration'' \<notin> im \<longrightarrow>
        ''duration'' \<notin> set (SQLGenKeysPartial p) \<and> map Duration (movies tx') = map Duration (movies tx))
   \<and> (''duration'' \<in> im \<longrightarrow>
        ''duration'' \<in> set (SQLGenKeysPartial p)
        \<and> (\<forall>m\<in>set (movies tx'). ID m = pID p \<longrightarrow>
              Duration m = (case uDuration input of None \<Rightarrow> null_int64 | Some n \<Rightarrow> \<lparr>Value = n, Valid = True\<rparr>)))"
  proof (cases "''duration'' \<in> im")
    case True
    then have "pDuration p = Some (case uDuration input of None \<Rightarrow> null_int64 | Some n \<Rightarrow> \<lparr>Value = n, Valid = True\<rparr>)"
      by (simp add: p MovieUpdate_patch_def nullInt64_def hasField_def)
    from column_Duration(2) [OF ms this] True show ?thesis by simp
  next
    case False
    then have "pDuration p = None"
      by (simp add: p MovieUpdate_patch_def nullInt64_def hasField_def)
    from column_Duration(1) [OF ms this] False show ?thesis by simp
  qed
  have f_Date: "(''date'' \<notin> im \<longrightarrow>
        ''date'' \<notin> set (SQLGenKeysPartial p) \<and> map Date (movies tx') = map Date (movies tx))
   \<and> (''date'' \<in> im \<longrightarrow>
        ''date'' \<in> set (SQLGenKeysPartial p)
        \<and> (\<forall>m\<in>set (movies tx'). ID m = pID p \<longrightarrow>
              Date m = (case uDate input of None \<Rightarrow> null_string | Some s \<Rightarrow> \<lparr>Value = s, Valid = True\<rparr>)))"
  proof (cases "''date'' \<in> im")
    case True
    then have "pDate p = Some (case uDate input of None \<Rightarrow> null_string | Some s \<Rightarrow> \<lparr>Value = s, Valid = True\<rparr>)"
      by (simp add: p MovieUpdate_patch_def sqliteDate_def hasField_def)
    from column_Date(2) [OF ms this] True show ?thesis by simp
  next
    case False
    then have "pDate p = None"
      by (simp add: p MovieUpdate_patch_def sqliteDate_def hasField_def)
    from column_Date(1) [OF ms this] False show ?thesis by simp
  qed
  have f_Rating: "(''rating'' \<notin> im \<longrightarrow>
        ''rating'' \<notin> set (SQLGenKeysPartial p) \<and> map Rating (movies tx') = map Rating (movies tx))
   \<and> (''rating'' \<in> im \<longrightarrow>
        ''rating'' \<in> set (SQLGenKeysPartial p)
        \<and> (\<forall>m\<in>set (movies tx'). ID m = pID p \<longrightarrow>
              Rating m = (case uRating input of None \<Rightarrow> null_int64 | Some n \<Rightarrow> \<lparr>Value = n, Valid = True\<rparr>)))"
  proof (cases "''rating'' \<in> im")
    case True
    then have "pRating p = Some (case uRating input of None \<Rightarrow> null_int64 | Some n \<Rightarrow> \<lparr>Value = n, Valid = True\<rparr>)"
      by (simp add: p MovieUpdate_patch_def nullInt64_def hasField_def)
    from column_Rating(2) [OF ms this] True show ?thesis by simp
  next
    case False
    then have "pRating p = None"
      by (simp add: p MovieUpdate_patch_def nullInt64_def hasField_def)
    from column_Rating(1) [OF ms this] False show ?thesis by simp
  qed
  have f_StudioID: "(''studio_id'' \<notin> im \<longrightarrow>
        ''studio_id'' \<notin> set (SQLGenKeysPartial p) \<and> map StudioID (movies tx') = map StudioID (movies tx))
   \<and> (''studio_id'' \<in> im \<longrightarrow>
        ''studio_id'' \<in> set (SQLGenKeysPartial p)
        \<and> (\<forall>m\<in>set (movies tx'). ID m = pID p \<longrightarrow>
              StudioID m = (case uStudioID input of None \<Rightarrow> null_int64 | Some s \<Rightarrow> \<lparr>Value = ParseInt env s, Valid = True\<rparr>)))"
  proof (cases "''studio_id'' \<in> im")
    case True
    then have "pStudioID p = Some (case uStudioID input of None \<Rightarrow> null_int64 | Some s \<Rightarrow> \<lparr>Value = ParseInt env s, Valid = True\<rparr>)"
      by (simp add: p MovieUpdate_patch_def nullInt64FromString_def hasField_def)
    from column_StudioID(2) [OF ms this] True show ?thesis by simp
  next
    case False
    then have "pStudioID p = None"
      by (simp add: p MovieUpdate_patch_def nullInt64FromString_def hasField_def)
    from column_StudioID(1) [OF ms this] False show ?thesis by simp
  qed
  have f_Director: "(''director'' \<notin> im \<longrightarrow>
        ''director'' \<notin> set (SQLGenKeysPartial p) \<and> map Director (movies tx') = map Director (movies tx))
   \<and> (''director'' \<in> im \<longrightarrow>
        ''director'' \<in> set (SQLGenKeysPartial p)
        \<and> (\<forall>m\<in>set (movies tx'). ID m = pID p \<longrightarrow>
              Director m = (case uDirector input of None \<Rightarrow> null_string | Some s \<Rightarrow> \<lparr>Value = s, Valid = True\<rparr>)))"
  proof (cases "''director'' \<in> im")
    case True
    then have "pDirector p = Some (case uDirector input of None \<Rightarrow> null_string | Some s \<Rightarrow> \<lparr>Value = s, Valid = True\<rparr>)"
      by (simp add: p MovieUpdate_patch_def nullString_def hasField_def)
    from column_Director(2) [OF ms this] True show ?thesis by simp
  next
    case False
    then have "pDirector p = None"
      by (simp add: p MovieUpdate_patch_def nullString_def hasField_def)
    from column_Director(1) [OF ms this] False show ?thesis by simp
  qed
  have f_Synopsis: "(''synopsis'' \<notin> im \<longrightarrow>
        ''synopsis'' \<notin> set (SQLGenKeysPartial p) \<and> map Synopsis (movies tx') = map Synopsis (movies tx))
   \<and> (''synopsis'' \<in> im \<longrightarrow>
        ''synopsis'' \<in> set (SQLGenKeysPartial p)
        \<and> (\<forall>m\<in>set (movies tx'). ID m = pID p \<longrightarrow>
              Synopsis m = (case uSynopsis input of None \<Rightarrow> null_string | Some s \<Rightarrow> \<lparr>Value = s, Valid = True\<rparr>)))"
  proof (cases "''synopsis'' \<in> im")
    case True
    then have "pSynopsis p = Some (case uSynopsis input of None \<Rightarrow> null_string | Some s \<Rightarrow> \<lparr>Value = s, Valid = True\<rparr>)"
      by (simp add: p MovieUpdate_patch_def nullString_def hasField_def)
    from column_Synopsis(2) [OF ms this] True show ?thesis by simp
  next
    case False
    then have "pSynopsis p = None"
      by (simp add: p MovieUpdate_patch_def nullString_def hasField_def)
    from column_Synopsis(1) [OF ms this] False show ?thesis by simp
  qed
  have f_URL: "(''url'' \<notin> im \<longrightarrow>
        ''url'' \<notin> set (SQLGenKeysPartial p) \<and> map URL (movies tx') = map URL (movies tx))
   \<and> (''url'' \<in> im \<longrightarrow>
        ''url'' \<in> set (SQLGenKeysPartial p)
        \<and> (\<forall>m\<in>set (movies tx'). ID m = pID p \<longrightarrow>
              URL m = (case uURL input of None \<Rightarrow> null_string | Some s \<Rightarrow> \<lparr>Value = s, Valid = True\<rparr>)))"
  proof (cases "''url'' \<in> im")
    case True
    then have "pURL p = Some (case uURL input of None \<Rightarrow> null_string | Some s \<Rightarrow> \<lparr>Value = s, Valid = True\<rparr>)"
      by (simp add: p MovieUpdate_patch_def nullString_def hasField_def)
    from column_URL(2) [OF ms this] True show ?thesis by simp
  next
    case False
    then have "pURL p = None"
      by (simp add: p MovieUpdate_patch_def nullString_def hasField_def)
    from column_URL(1) [OF ms this] False show ?thesis by simp
  qed
  have f_Name: "uName input = None \<longrightarrow>
        ''name'' \<notin> set (SQLGenKeysPartial p) \<and> ''checksum'' \<notin> set (SQLGenKeysPartial p)
        \<and> map Name (movies tx') = map Name (movies tx)
        \<and> map Checksum (movies tx') = map Checksum (movies tx)"
  proof
    assume "uName input = None"
    then have "pName p = None" and "pChecksum p = None"
      by (simp_all add: p MovieUpdate_patch_def)
    with column_Name(1) [OF ms] column_Checksum(1) [OF ms]
    show "''name'' \<notin> set (SQLGenKeysPartial p) \<and> ''checksum'' \<notin> set (SQLGenKeysPartial p)
        \<and> map Name (movies tx') = map Name (movies tx)
        \<and> map Checksum (movies tx') = map Checksum (movies tx)" by simp
  qed
  from f_Aliases f_Duration f_Date f_Rating f_StudioID f_Director f_Synopsis f_URL f_Name
  show ?thesis by blast
qed

subsection \<open>The model on the sample inputs\<close>

lemmas sample_defs =
  sample_env_def sample_db_def sample_movie_def sample_Atoi_def sample_create_def
  sample_update_def null_string_def null_int64_def

lemmas resolver_defs =
  MovieCreate_def MovieCreate_newMovie_def MovieUpdate_def MovieUpdate_patch_def
  MovieUpdate_images_def decode_image_def default_image_data_def hasField_def
  nullString_def nullInt64_def sqliteDate_def nullInt64FromString_def len_def Let_def

lemmas repository_defs =
  Create_def Update_def Find_def queryMovie_def queryMovies_def tx_Get_def tx_Commit_def
  exec_def fresh_id_def SQLGenKeysPartial_def update_row_def set_column_def
  UpdateMovieImages_def DestroyMovieImages_def GetFrontImage_def GetBackImage_def
  getImage_def first_image_def

lemma sample_MovieCreate:
  "MovieCreate sample_env sample_create sample_db
     = (sample_db\<lparr>movies := movies sample_db
            @ [(sample_movie 3 ''C'')\<lparr>Rating := null_int64, CreatedAt := 100, UpdatedAt := 100\<rparr>],
          movies_images := movies_images sample_db
            @ [\<lparr>movie_id = 3, front_image = Some [68], back_image = Some [98]\<rparr>]\<rparr>,
        Inr ((sample_movie 3 ''C'')\<lparr>Rating := null_int64, CreatedAt := 100, UpdatedAt := 100\<rparr>))"
  by (simp add: resolver_defs repository_defs sample_defs)

lemma sample_MovieUpdate_name:
  "MovieUpdate sample_env {''id'', ''name''} (sample_update\<lparr>uName := Some ''Z''\<rparr>) sample_db
     = (sample_db\<lparr>movies := [sample_movie 1 ''A'', (sample_movie 2 ''Z'')\<lparr>UpdatedAt := 100\<rparr>]\<rparr>,
        Inr (Some ((sample_movie 2 ''Z'')\<lparr>UpdatedAt := 100\<rparr>)))"
  by (simp add: resolver_defs repository_defs sample_defs)

lemma sample_MovieUpdate_null_name:
  "MovieUpdate sample_env {''id'', ''name''} sample_update sample_db
     = (sample_db\<lparr>movies := [sample_movie 1 ''A'', (sample_movie 2 ''B'')\<lparr>UpdatedAt := 100\<rparr>]\<rparr>,
        Inr (Some ((sample_movie 2 ''B'')\<lparr>UpdatedAt := 100\<rparr>)))"
  by (simp add: resolver_defs repository_defs sample_defs)

lemma sample_Update_null_rating:
  "Update sample_env (MovieUpdate_patch sample_env \<lparr>inputMap = {''id'', ''rating''}\<rparr> sample_update)
       sample_db
     = (sample_db\<lparr>movies := [sample_movie 1 ''A'',
            (sample_movie 2 ''B'')\<lparr>Rating := null_int64, UpdatedAt := 100\<rparr>]\<rparr>,
        Inr (Some ((sample_movie 2 ''B'')\<lparr>Rating := null_int64, UpdatedAt := 100\<rparr>)))"
  by (simp add: resolver_defs repository_defs sample_defs)

lemma sample_MovieUpdate_back:
  "MovieUpdate sample_env {''id'', ''back_image''} (sample_update\<lparr>uBackImage := Some ''Yg==''\<rparr>)
       sample_db
     = (sample_db\<lparr>movies := [sample_movie 1 ''A'', (sample_movie 2 ''B'')\<lparr>UpdatedAt := 100\<rparr>],
          movies_images := movies_images sample_db
            @ [\<lparr>movie_id = 2, front_image = Some [68], back_image = Some [98]\<rparr>]\<rparr>,
        Inr (Some ((sample_movie 2 ''B'')\<lparr>UpdatedAt := 100\<rparr>)))"
  by (simp add: resolver_defs repository_defs sample_defs)


lemma sample_MovieUpdate_back_kept_front:
  "MovieUpdate sample_env {''id'', ''back_image''}
       (sample_update\<lparr>uID := ''1'', uBackImage := Some ''Yg==''\<rparr>) sample_db
     = (sample_db\<lparr>movies := [(sample_movie 1 ''A'')\<lparr>UpdatedAt := 100\<rparr>, sample_movie 2 ''B''],
          movies_images := [\<lparr>movie_id = 1, front_image = Some [1, 2], back_image = Some [98]\<rparr>]\<rparr>,
        Inr (Some ((sample_movie 1 ''A'')\<lparr>UpdatedAt := 100\<rparr>)))"
  by (simp add: resolver_defs repository_defs sample_defs)

lemma sample_MovieUpdate_front_cleared:
  "MovieUpdate sample_env {''id'', ''front_image''} (sample_update\<lparr>uID := ''1''\<rparr>) sample_db
     = (sample_db\<lparr>movies := [(sample_movie 1 ''A'')\<lparr>UpdatedAt := 100\<rparr>, sample_movie 2 ''B''],
          movies_images := []\<rparr>,
        Inr (Some ((sample_movie 1 ''A'')\<lparr>UpdatedAt := 100\<rparr>)))"
  by (simp add: resolver_defs repository_defs sample_defs)

subsection \<open>The sidecar row\<close>

lemma filter_complement:
  "filter (\<lambda>r. movie_id r = i) (filter (\<lambda>r. movie_id r \<noteq> i) rs) = []"
  "filter (\<lambda>r. movie_id r \<noteq> i) (filter (\<lambda>r. movie_id r \<noteq> i) rs)
     = filter (\<lambda>r. movie_id r \<noteq> i) rs"
  by (induction rs) auto

lemma getImage_Inr: "getImage env q tx = Inr x \<Longrightarrow> x = first_image q tx"
  by (cases "engine_error env q tx") (simp_all add: getImage_def)

lemma first_image_tables:
  "movies_images a = movies_images b \<Longrightarrow>
   first_image (SelectFrontImage i) a = first_image (SelectFrontImage i) b
   \<and> first_image (SelectBackImage i) a = first_image (SelectBackImage i) b"
  by (simp add: first_image_def)

lemma MovieUpdate_sidecar:
  assumes ok: "MovieUpdate env im update d = (d', Inr res)"
    and inc: "''front_image'' \<in> im \<or> ''back_image'' \<in> im"
    and i: "i = Atoi env (uID update)"
  shows "\<exists>fd bd f b.
           decode_image env (uFrontImage update) = Inr fd
           \<and> decode_image env (uBackImage update) = Inr bd
           \<and> f = (if ''front_image'' \<in> im then fd else first_image (SelectFrontImage i) d)
           \<and> b = (if ''back_image'' \<in> im then bd else first_image (SelectBackImage i) d)
           \<and> filter (\<lambda>r. movie_id r \<noteq> i) (movies_images d')
               = filter (\<lambda>r. movie_id r \<noteq> i) (movies_images d)
           \<and> filter (\<lambda>r. movie_id r = i) (movies_images d')
               = (if len f = 0 \<and> len b = 0 then []
                  else [\<lparr>movie_id = i,
                         front_image = (if f = None \<and> b \<noteq> None
                                        then default_image_data env else f),
                         back_image = b\<rparr>])"
proof -
  let ?p = "MovieUpdate_patch env \<lparr>inputMap = im\<rparr> update"
  from MovieUpdate_success [OF ok] obtain fd bd tx where
    fd: "decode_image env (uFrontImage update) = Inr fd"
    and bd: "decode_image env (uBackImage update) = Inr bd"
    and u: "Update env ?p d = (tx, Inr res)"
    and im: "MovieUpdate_images env (''front_image'' \<in> im) (''back_image'' \<in> im) fd bd
               ?p res tx = (d', None)"
    by blast
  have pid: "pID ?p = i" by (simp add: i MovieUpdate_patch_def)
  from Update_success(1) [OF u] have mi: "movies_images tx = movies_images d" by simp
  from MovieUpdate_images_success(2) [OF im inc] obtain mv f b where
    mv: "res = Some mv"
    and rf: "(if \<not> ''front_image'' \<in> im then GetFrontImage env (pID ?p) tx else Inr fd) = Inr f"
    and rb: "(if \<not> ''back_image'' \<in> im then GetBackImage env (pID ?p) tx else Inr bd) = Inr b"
    and rows: "movies_images d'
               = (if len f = 0 \<and> len b = 0
                  then filter (\<lambda>r. movie_id r \<noteq> ID mv) (movies_images tx)
                  else filter (\<lambda>r. movie_id r \<noteq> ID mv) (movies_images tx)
                       @ [\<lparr>movie_id = ID mv,
                           front_image = (if f = None \<and> b \<noteq> None
                                          then default_image_data env else f),
                           back_image = b\<rparr>])"
    by blast
  from Update_success(2) [OF u] mv have "List.find (\<lambda>m. ID m = pID ?p) (movies tx) = Some mv"
    by simp
  with pid have mvid: "ID mv = i" by (auto dest: find_Some_mem)
  from rf pid first_image_tables [OF mi, of i]
  have f: "f = (if ''front_image'' \<in> im then fd else first_image (SelectFrontImage i) d)"
    by (auto simp add: GetFrontImage_def split: if_splits dest: getImage_Inr)
  from rb pid first_image_tables [OF mi, of i]
  have b: "b = (if ''back_image'' \<in> im then bd else first_image (SelectBackImage i) d)"
    by (auto simp add: GetBackImage_def split: if_splits dest: getImage_Inr)
  from rows mvid mi
  have r1: "filter (\<lambda>r. movie_id r \<noteq> i) (movies_images d')
               = filter (\<lambda>r. movie_id r \<noteq> i) (movies_images d)"
    by (simp add: filter_complement)
  from rows mvid mi
  have r2: "filter (\<lambda>r. movie_id r = i) (movies_images d')
               = (if len f = 0 \<and> len b = 0 then []
                  else [\<lparr>movie_id = i,
                         front_image = (if f = None \<and> b \<noteq> None
                                        then default_image_data env else f),
                         back_image = b\<rparr>])"
    by (simp add: filter_complement)
  from fd bd f b r1 r2 show ?thesis by blast
qed








text \<open>Movie 2 of the sample tables has no sidecar row, so its front image reads as nil. An
  update that mentions the back image only leaves it with the default front image.\<close>

theorem unmentioned_front_counterexample:
  "first_image (SelectFrontImage 2) sample_db = None
   \<and> first_image (SelectFrontImage 2)
       (fst (MovieUpdate sample_env {''id'', ''back_image''}
          (sample_update\<lparr>uBackImage := Some ''Yg==''\<rparr>) sample_db))
     = Some [68]"
  by (simp add: sample_MovieUpdate_back) (simp add: first_image_def sample_defs)

text \<open>
  C10, amended. Let \<^verbatim>\<open>MovieUpdate\<close> succeed on a payload with exactly one of the two
  image fields in the presence set. The image of the other field is read from the
  sidecar table; the rows of other movies stay as they are. When both images are then
  empty, no sidecar row of the movie is left. Otherwise the movie has exactly one sidecar
  row, holding the image supplied and the image read back: an unmentioned back image is
  stored again as it was, and so is an unmentioned front image that is not nil; an
  unmentioned front image that is nil is stored as the default image (the back image
  supplied is not empty then).
\<close>

theorem unmentioned_image_kept:
  "(MovieUpdate env im update d = (d', Inr res)
      \<and> ''front_image'' \<notin> im \<and> ''back_image'' \<in> im
      \<and> i = Atoi env (uID update) \<and> f0 = first_image (SelectFrontImage i) d \<longrightarrow>
      (\<exists>b. decode_image env (uBackImage update) = Inr b
         \<and> filter (\<lambda>r. movie_id r \<noteq> i) (movies_images d')
             = filter (\<lambda>r. movie_id r \<noteq> i) (movies_images d)
         \<and> filter (\<lambda>r. movie_id r = i) (movies_images d')
             = (if len f0 = 0 \<and> len b = 0 then []
                else [\<lparr>movie_id = i,
                       front_image = (if f0 = None then default_image_data env else f0),
                       back_image = b\<rparr>])))
   \<and> (MovieUpdate env im update d = (d', Inr res)
      \<and> ''front_image'' \<in> im \<and> ''back_image'' \<notin> im
      \<and> i = Atoi env (uID update) \<and> b0 = first_image (SelectBackImage i) d \<longrightarrow>
      (\<exists>f. decode_image env (uFrontImage update) = Inr f
         \<and> filter (\<lambda>r. movie_id r \<noteq> i) (movies_images d')
             = filter (\<lambda>r. movie_id r \<noteq> i) (movies_images d)
         \<and> filter (\<lambda>r. movie_id r = i) (movies_images d')
             = (if len f = 0 \<and> len b0 = 0 then []
                else [\<lparr>movie_id = i,
                       front_image = (if f = None \<and> b0 \<noteq> None
                                      then default_image_data env else f),
                       back_image = b0\<rparr>])))"
proof (intro conjI impI)
  assume a: "MovieUpdate env im update d = (d', Inr res)
      \<and> ''front_image'' \<notin> im \<and> ''back_image'' \<in> im
      \<and> i = Atoi env (uID update) \<and> f0 = first_image (SelectFrontImage i) d"
  from a MovieUpdate_sidecar [of env im update d d' res i] obtain fd bd f b where
    bd: "decode_image env (uBackImage update) = Inr bd"
    and f: "f = (if ''front_image'' \<in> im then fd else first_image (SelectFrontImage i) d)"
    and b: "b = (if ''back_image'' \<in> im then bd else first_image (SelectBackImage i) d)"
    and others: "filter (\<lambda>r. movie_id r \<noteq> i) (movies_images d')
               = filter (\<lambda>r. movie_id r \<noteq> i) (movies_images d)"
    and rows: "filter (\<lambda>r. movie_id r = i) (movies_images d')
               = (if len f = 0 \<and> len b = 0 then []
                  else [\<lparr>movie_id = i,
                         front_image = (if f = None \<and> b \<noteq> None
                                        then default_image_data env else f),
                         back_image = b\<rparr>])"
    by blast
  from a f b have fb: "f = f0" "b = bd" by simp_all
  have "filter (\<lambda>r. movie_id r = i) (movies_images d')
             = (if len f0 = 0 \<and> len bd = 0 then []
                else [\<lparr>movie_id = i,
                       front_image = (if f0 = None then default_image_data env else f0),
                       back_image = bd\<rparr>])"
    unfolding rows fb by (cases f0; cases bd) (simp_all add: len_def)
  with bd others
  show "\<exists>b. decode_image env (uBackImage update) = Inr b
         \<and> filter (\<lambda>r. movie_id r \<noteq> i) (movies_images d')
             = filter (\<lambda>r. movie_id r \<noteq> i) (movies_images d)
         \<and> filter (\<lambda>r. movie_id r = i) (movies_images d')
             = (if len f0 = 0 \<and> len b = 0 then []
                else [\<lparr>movie_id = i,
                       front_image = (if f0 = None then default_image_data env else f0),
                       back_image = b\<rparr>])"
    by blast
next
  assume a: "MovieUpdate env im update d = (d', Inr res)
      \<and> ''front_image'' \<in> im \<and> ''back_image'' \<notin> im
      \<and> i = Atoi env (uID update) \<and> b0 = first_image (SelectBackImage i) d"
  from a MovieUpdate_sidecar [of env im update d d' res i] obtain fd bd f b where
    fd: "decode_image env (uFrontImage update) = Inr fd"
    and f: "f = (if ''front_image'' \<in> im then fd else first_image (SelectFrontImage i) d)"
    and b: "b = (if ''back_image'' \<in> im then bd else first_image (SelectBackImage i) d)"
    and others: "filter (\<lambda>r. movie_id r \<noteq> i) (movies_images d')
               = filter (\<lambda>r. movie_id r \<noteq> i) (movies_images d)"
    and rows: "filter (\<lambda>r. movie_id r = i) (movies_images d')
               = (if len f = 0 \<and> len b = 0 then []
                  else [\<lparr>movie_id = i,
                         front_image = (if f = None \<and> b \<noteq> None
                                        then default_image_data env else f),
                         back_image = b\<rparr>])"
    by blast
  from a f b have fb: "f = fd" "b = b0" by simp_all
  from rows fd others
  show "\<exists>f. decode_image env (uFrontImage update) = Inr f
         \<and> filter (\<lambda>r. movie_id r \<noteq> i) (movies_images d')
             = filter (\<lambda>r. movie_id r \<noteq> i) (movies_images d)
         \<and> filter (\<lambda>r. movie_id r = i) (movies_images d')
             = (if len f = 0 \<and> len b0 = 0 then []
                else [\<lparr>movie_id = i,
                       front_image = (if f = None \<and> b0 \<noteq> None
                                      then default_image_data env else f),
                       back_image = b0\<rparr>])"
    unfolding fb by blast
qed

text \<open>On the sample tables: an update of movie 1 that mentions the back image only keeps
  the stored front image; one that mentions the front image only, as null, deletes the
  sidecar row.\<close>

theorem unmentioned_image_kept_witness:
  "filter (\<lambda>r. movie_id r = 1)
       (movies_images (fst (MovieUpdate sample_env {''id'', ''back_image''}
          (sample_update\<lparr>uID := ''1'', uBackImage := Some ''Yg==''\<rparr>) sample_db)))
     = [\<lparr>movie_id = 1, front_image = Some [1, 2], back_image = Some [98]\<rparr>]
   \<and> filter (\<lambda>r. movie_id r = 1)
       (movies_images (fst (MovieUpdate sample_env {''id'', ''front_image''}
          (sample_update\<lparr>uID := ''1''\<rparr>) sample_db)))
     = []"
  using unmentioned_image_kept
    [of sample_env "{''id'', ''back_image''}"
        "sample_update\<lparr>uID := ''1'', uBackImage := Some ''Yg==''\<rparr>" sample_db
        "fst (MovieUpdate sample_env {''id'', ''back_image''}
          (sample_update\<lparr>uID := ''1'', uBackImage := Some ''Yg==''\<rparr>) sample_db)"
        "Some ((sample_movie 1 ''A'')\<lparr>UpdatedAt := 100\<rparr>)" 1 "Some [1, 2]" None]
    unmentioned_image_kept
    [of sample_env "{''id'', ''front_image''}"
        "sample_update\<lparr>uID := ''1''\<rparr>" sample_db
        "fst (MovieUpdate sample_env {''id'', ''front_image''}
          (sample_update\<lparr>uID := ''1''\<rparr>) sample_db)"
        "Some ((sample_movie 1 ''A'')\<lparr>UpdatedAt := 100\<rparr>)" 1 None None]
  apply (simp only: sample_MovieUpdate_back_kept_front sample_MovieUpdate_front_cleared fst_conv)
  apply (simp add: sample_defs first_image_def decode_image_def len_def)
  done

text \<open>On the sample tables: the movie created with name C is the row added and carries
  the hash of its name; the update that renames movie 2 to Z returns its record, stored
  with the hash of Z.\<close>

theorem checksum_follows_name_witness:
  "movies (fst (MovieCreate sample_env sample_create sample_db))
     = movies sample_db
       @ [(sample_movie 3 ''C'')\<lparr>Rating := null_int64, CreatedAt := 100, UpdatedAt := 100\<rparr>]
   \<and> Checksum ((sample_movie 3 ''C'')\<lparr>Rating := null_int64, CreatedAt := 100, UpdatedAt := 100\<rparr>)
     = MD5FromString sample_env ''C''
   \<and> ''checksum'' \<in> set (SQLGenKeysPartial
        (MovieUpdate_patch sample_env \<lparr>inputMap = {''id'', ''name''}\<rparr>
           (sample_update\<lparr>uName := Some ''Z''\<rparr>)))
   \<and> (\<exists>m. snd (MovieUpdate sample_env {''id'', ''name''}
               (sample_update\<lparr>uName := Some ''Z''\<rparr>) sample_db) = Inr (Some m)
         \<and> m \<in> set (movies (fst (MovieUpdate sample_env {''id'', ''name''}
               (sample_update\<lparr>uName := Some ''Z''\<rparr>) sample_db)))
         \<and> ID m = 2
         \<and> Name m = \<lparr>Value = ''Z'', Valid = True\<rparr>
         \<and> Checksum m = MD5FromString sample_env ''Z'')"
  using checksum_follows_name
    [of sample_env sample_create sample_db
        "fst (MovieCreate sample_env sample_create sample_db)"
        "(sample_movie 3 ''C'')\<lparr>Rating := null_int64, CreatedAt := 100, UpdatedAt := 100\<rparr>"
        "{''id'', ''name''}" "sample_update\<lparr>uName := Some ''Z''\<rparr>"
        "fst (MovieUpdate sample_env {''id'', ''name''}
           (sample_update\<lparr>uName := Some ''Z''\<rparr>) sample_db)"
        "Some ((sample_movie 2 ''Z'')\<lparr>UpdatedAt := 100\<rparr>)" "''Z''"]
  apply (simp only: sample_MovieCreate sample_MovieUpdate_name fst_conv snd_conv)
  apply (simp add: sample_defs)
  done

text \<open>An update of movie 2 whose presence set holds the name, with a null name: the name is
  not in the SET-list and the stored names are what they were.\<close>

theorem null_name_counterexample:
  "''name'' \<notin> set (SQLGenKeysPartial
      (MovieUpdate_patch sample_env \<lparr>inputMap = {''id'', ''name''}\<rparr> sample_update))
   \<and> map Name (movies (fst (MovieUpdate sample_env {''id'', ''name''} sample_update sample_db)))
     = [\<lparr>Value = ''A'', Valid = True\<rparr>, \<lparr>Value = ''B'', Valid = True\<rparr>]"
  by (simp add: sample_MovieUpdate_null_name)
     (simp add: SQLGenKeysPartial_def MovieUpdate_patch_def resolver_defs sample_defs)

text \<open>On the sample tables: an update of movie 2 whose presence set holds the rating, with
  a null rating, writes the rating and leaves the aliases alone.\<close>

theorem presence_vs_null_witness:
  "''rating'' \<in> set (SQLGenKeysPartial
      (MovieUpdate_patch sample_env \<lparr>inputMap = {''id'', ''rating''}\<rparr> sample_update))
   \<and> ''aliases'' \<notin> set (SQLGenKeysPartial
      (MovieUpdate_patch sample_env \<lparr>inputMap = {''id'', ''rating''}\<rparr> sample_update))
   \<and> map Aliases (movies (fst (Update sample_env
        (MovieUpdate_patch sample_env \<lparr>inputMap = {''id'', ''rating''}\<rparr> sample_update)
        sample_db)))
     = map Aliases (movies sample_db)
   \<and> Rating ((sample_movie 2 ''B'')\<lparr>Rating := null_int64, UpdatedAt := 100\<rparr>) = null_int64"
  using presence_vs_null [OF refl sample_Update_null_rating]
  apply (simp only: sample_Update_null_rating fst_conv)
  apply (simp add: sample_defs)
  done

end
